theory Spec2Isabelle
  imports Main "HOL-Library.Word" "HOL-Library.Sublist"
begin

section \<open>The world the installer scripts act on\<close>

text \<open>
  The repository holds four variants of one installer script: \<^verbatim>\<open>python.py\<close>,
  \<^verbatim>\<open>startup3.py\<close>, \<^verbatim>\<open>startup.py\<close> and \<^verbatim>\<open>startup2.py\<close>. Each of them acts on the
  file system, the network, external commands and the clock. The embedding makes these
  explicit: a \<open>world\<close> record is threaded through every function, and everything the
  script cannot decide by itself (what the network answers, what a command does and
  returns, whether a process starts, what time it is, what the user types) is read from
  an \<open>env\<close> record of oracles. A Python exception is the \<open>Inl\<close> branch of a sum.
\<close>

type_synonym byte = "8 word"
type_synonym bytes = "byte list"
type_synonym path = string
type_synonym url = string

datatype node = File bytes | Dir

text \<open>
  The file system is a finite table from path strings to nodes, read with \<open>map_of\<close>
  (the first entry of a path is the one that counts). A path lies inside a directory when
  it extends the directory's path by a separator and more. There are no symbolic links and
  no permissions in the model: the scripts run as root.
\<close>

type_synonym filesystem = "(path \<times> node) list"

datatype py_error =
    HTTPError int
  | URLError string
  | OtherException string
  | UnboundLocalError string
  | RuntimeError string
  | FileNotFoundError path
  | FileExistsError path
  | NotADirectoryError path
  | IsADirectoryError path
  | ShutilError string
  | CalledProcessError "string list" int
  | OSError string
  | NameError string
  | EOFError
  | MemoryError
  | OverflowError string
  | ValueError string

datatype level = DEBUG | INFO | WARNING | ERROR

datatype event =
    is_Http: Http string url
  | is_Sleep: Sleep int
  | is_Run: Run "string list"
  | is_Spawn: Spawn "string list"

record response =
  final_url :: url
  status :: int
  body :: bytes

record proc =
  returncode :: int
  stdout :: string

text \<open>
  The oracles. \<open>http k u\<close> answers the \<open>k\<close>-th network request of the session
  (counted from 0) when it asks for \<open>u\<close>; \<open>run k c t\<close> is what the \<open>k\<close>-th external
  command does when it is \<open>c\<close> and finds the file system \<open>t\<close>: it cannot be started
  (\<open>Inl\<close>), or it ends with a return code, an output and a file system; \<open>spawn c\<close>
  says whether \<^verbatim>\<open>subprocess.Popen\<close> starts \<open>c\<close>; \<open>clock k\<close> is the \<open>k\<close>-th reading
  of \<^verbatim>\<open>int(time.time())\<close>; \<open>answer\<close> is what \<^verbatim>\<open>input\<close> returns; \<open>sha256\<close> is the
  digest of a whole message; \<open>tsetup_link\<close> and \<open>tarxz_link\<close> are the two regular
  expression searches of the Telegram page; \<open>free_bytes\<close> is the number of bytes the
  interpreter can allocate in one block.
\<close>

record env =
  http :: "nat \<Rightarrow> url \<Rightarrow> py_error + response"
  run :: "nat \<Rightarrow> string list \<Rightarrow> filesystem \<Rightarrow> py_error + proc \<times> filesystem"
  spawn :: "string list \<Rightarrow> py_error option"
  clock :: "nat \<Rightarrow> int"
  euid :: nat
  cwd :: path
  answer :: "py_error + string"
  sha256 :: "bytes \<Rightarrow> string"
  tsetup_link :: "bytes \<Rightarrow> url option"
  tarxz_link :: "bytes \<Rightarrow> url option"
  free_bytes :: int

record world =
  fs :: filesystem
  trace :: "event list"
  logs :: "(level \<times> string) list"
  ticks :: nat

type_synonym 'a comp = "world \<Rightarrow> (py_error + 'a) \<times> world"

definition net_attempts :: "world \<Rightarrow> nat" where
  "net_attempts w = length (filter is_Http (trace w))"

definition commands_run :: "world \<Rightarrow> nat" where
  "commands_run w = length (filter is_Run (trace w))"

definition sleeps :: "world \<Rightarrow> int list" where
  "sleeps w = concat (map (\<lambda>e. case e of Sleep d \<Rightarrow> [d] | _ \<Rightarrow> []) (trace w))"

definition emit :: "event \<Rightarrow> world \<Rightarrow> world" where
  "emit e w = w\<lparr>trace := trace w @ [e]\<rparr>"

definition logger :: "level \<Rightarrow> string \<Rightarrow> world \<Rightarrow> world" where
  "logger l msg w = w\<lparr>logs := logs w @ [(l, msg)]\<rparr>"

subsection \<open>Sequencing, raising and catching\<close>

definition return :: "'a \<Rightarrow> 'a comp" where
  "return x w = (Inr x, w)"

definition raise :: "py_error \<Rightarrow> 'a comp" where
  "raise e w = (Inl e, w)"

definition bind :: "'a comp \<Rightarrow> ('a \<Rightarrow> 'b comp) \<Rightarrow> 'b comp" where
  "bind m f w = (case m w of (Inl e, w1) \<Rightarrow> (Inl e, w1) | (Inr x, w1) \<Rightarrow> f x w1)"

text \<open>\<^verbatim>\<open>try: m except Exception as e: h e\<close>.\<close>

definition try_except :: "'a comp \<Rightarrow> (py_error \<Rightarrow> 'a comp) \<Rightarrow> 'a comp" where
  "try_except m h w = (case m w of (Inl e, w1) \<Rightarrow> h e w1 | (Inr x, w1) \<Rightarrow> (Inr x, w1))"

text \<open>Statements one after the other; the first exception ends the sequence.\<close>

fun steps :: "unit comp list \<Rightarrow> unit comp" where
  "steps [] w = (Inr (), w)"
| "steps (m # ms) w = (case m w of (Inl e, w1) \<Rightarrow> (Inl e, w1) | (Inr _, w1) \<Rightarrow> steps ms w1)"

definition say :: "level \<Rightarrow> string \<Rightarrow> unit comp" where
  "say l msg w = (Inr (), logger l msg w)"

definition fs_op :: "(filesystem \<Rightarrow> py_error + filesystem) \<Rightarrow> unit comp" where
  "fs_op f w = (case f (fs w) of Inl e \<Rightarrow> (Inl e, w) | Inr t \<Rightarrow> (Inr (), w\<lparr>fs := t\<rparr>))"

text \<open>\<^verbatim>\<open>if test: m\<close> and \<^verbatim>\<open>if not test: raise e\<close>, the test reading the file system.\<close>

definition when_fs :: "(filesystem \<Rightarrow> bool) \<Rightarrow> unit comp \<Rightarrow> unit comp" where
  "when_fs c m w = (if c (fs w) then m w else (Inr (), w))"

definition require_fs :: "(filesystem \<Rightarrow> bool) \<Rightarrow> py_error \<Rightarrow> unit comp" where
  "require_fs c e w = (if c (fs w) then (Inr (), w) else (Inl e, w))"

subsection \<open>Paths\<close>

text \<open>A path with its trailing separators taken away (the root keeps one).\<close>

definition normpath :: "path \<Rightarrow> path" where
  "normpath p =
     (let s = rev (dropWhile (\<lambda>c. c = CHR ''/'') (rev p))
      in if s = [] \<and> p \<noteq> [] then ''/'' else s)"

definition lookup :: "filesystem \<Rightarrow> path \<Rightarrow> node option" where
  "lookup t p = map_of t (normpath p)"

definition path_exists :: "filesystem \<Rightarrow> path \<Rightarrow> bool" where
  "path_exists t p = (lookup t p \<noteq> None)"

definition isdir :: "filesystem \<Rightarrow> path \<Rightarrow> bool" where
  "isdir t p = (lookup t p = Some Dir)"

definition isfile :: "filesystem \<Rightarrow> path \<Rightarrow> bool" where
  "isfile t p = (case lookup t p of Some (File _) \<Rightarrow> True | _ \<Rightarrow> False)"

text \<open>\<^verbatim>\<open>os.path.join\<close> of two components, \<^verbatim>\<open>os.path.basename\<close>, \<^verbatim>\<open>os.path.dirname\<close> and
  \<^verbatim>\<open>os.path.abspath\<close> for a path without dots.\<close>

definition join :: "path \<Rightarrow> path \<Rightarrow> path" where
  "join a b =
     (if b \<noteq> [] \<and> hd b = CHR ''/'' then b
      else if a = [] \<or> last a = CHR ''/'' then a @ b
      else a @ ''/'' @ b)"

definition basename :: "path \<Rightarrow> path" where
  "basename p = rev (takeWhile (\<lambda>c. c \<noteq> CHR ''/'') (rev p))"

definition dirname :: "path \<Rightarrow> path" where
  "dirname p =
     (let h = rev (dropWhile (\<lambda>c. c \<noteq> CHR ''/'') (rev p));
          s = rev (dropWhile (\<lambda>c. c = CHR ''/'') (rev h))
      in if s = [] then h else s)"

definition abspath :: "env \<Rightarrow> path \<Rightarrow> path" where
  "abspath ev p = normpath (join (cwd ev) p)"

definition inside :: "path \<Rightarrow> path \<Rightarrow> bool" where
  "inside d p = prefix (d @ ''/'') p"

definition under :: "path \<Rightarrow> path \<Rightarrow> bool" where
  "under d p = (p = d \<or> inside d p)"

definition rebase :: "path \<Rightarrow> path \<Rightarrow> path \<Rightarrow> path" where
  "rebase src dst p = dst @ drop (length src) p"

text \<open>The directories \<^verbatim>\<open>os.makedirs\<close> walks through: every prefix that ends before a
  separator, then the path itself.\<close>

definition path_prefixes :: "path \<Rightarrow> path list" where
  "path_prefixes p =
     (let q = normpath p
      in [take i q. i \<leftarrow> [1..<length q], q ! i = CHR ''/''] @ [q])"

fun mk_each :: "path list \<Rightarrow> filesystem \<Rightarrow> py_error + filesystem" where
  "mk_each [] t = Inr t"
| "mk_each (q # qs) t =
     (case map_of t q of
        None \<Rightarrow> mk_each qs ((q, Dir) # t)
      | Some Dir \<Rightarrow> mk_each qs t
      | Some (File _) \<Rightarrow> Inl (if qs = [] then FileExistsError q else NotADirectoryError q))"

text \<open>\<^verbatim>\<open>os.makedirs(path, exist_ok=True)\<close>. \<^verbatim>\<open>safe_makedirs\<close> of startup.py and startup2.py
  adds a \<^verbatim>\<open>chmod\<close> whose failure it swallows, and \<^verbatim>\<open>ensure_dir\<close> of python.py and
  startup3.py is the same call.\<close>

definition makedirs :: "path \<Rightarrow> filesystem \<Rightarrow> py_error + filesystem" where
  "makedirs p t = mk_each (path_prefixes p) t"

definition safe_makedirs :: "path \<Rightarrow> unit comp" where
  "safe_makedirs p = fs_op (makedirs p)"

definition ensure_dir :: "path \<Rightarrow> unit comp" where
  "ensure_dir p = fs_op (makedirs p)"

definition write_file :: "path \<Rightarrow> bytes \<Rightarrow> filesystem \<Rightarrow> py_error + filesystem" where
  "write_file p b t =
     (if isdir t p then Inl (IsADirectoryError p)
      else if dirname p \<noteq> [] \<and> \<not> isdir t (dirname p) then Inl (FileNotFoundError p)
      else Inr ((normpath p, File b) # t))"

subsection \<open>The shutil calls\<close>

text \<open>
  \<^verbatim>\<open>shutil.copy\<close> and \<^verbatim>\<open>shutil.copy2\<close> (they differ in the metadata they copy, which the
  model does not hold): a directory as destination stands for the file of the source's
  name inside it.
\<close>

definition shutil_copy :: "path \<Rightarrow> path \<Rightarrow> filesystem \<Rightarrow> py_error + filesystem" where
  "shutil_copy src dst t =
     (let d = (if isdir t dst then join dst (basename src) else dst)
      in case lookup t src of
           None \<Rightarrow> Inl (FileNotFoundError src)
         | Some Dir \<Rightarrow> Inl (IsADirectoryError src)
         | Some (File b) \<Rightarrow>
             if normpath d = normpath src then Inl (ShutilError ''same file'')
             else write_file d b t)"

text \<open>
  \<^verbatim>\<open>os.rename\<close> of a file or a whole tree: every entry at or inside \<open>src\<close> moves to the
  same place at or inside \<open>dst\<close>, and what was at \<open>dst\<close> is replaced.
\<close>

definition rename_tree :: "path \<Rightarrow> path \<Rightarrow> filesystem \<Rightarrow> filesystem" where
  "rename_tree src dst t =
     map (\<lambda>(p, n). if under src p then (rebase src dst p, n) else (p, n))
       (filter (\<lambda>(p, n). under src p \<or> \<not> under dst p) t)"

text \<open>
  \<^verbatim>\<open>shutil.move(src, dst)\<close>: into \<open>dst\<close> when that is a directory (an error when the
  name is taken there), else a rename; when the rename of a directory fails because the
  destination's parent is missing, the fallback \<^verbatim>\<open>copytree\<close> creates the parents.
\<close>

definition shutil_move :: "path \<Rightarrow> path \<Rightarrow> filesystem \<Rightarrow> py_error + filesystem" where
  "shutil_move src0 dst0 t =
     (let src = normpath src0; dst = normpath dst0;
          real_dst = (if isdir t dst then join dst (basename src) else dst)
      in if src = dst then (if path_exists t src then Inr t else Inl (FileNotFoundError src))
         else if isdir t dst \<and> path_exists t real_dst
         then Inl (ShutilError ''Destination path already exists'')
         else case lookup t src of
                None \<Rightarrow> Inl (FileNotFoundError src)
              | Some (File b) \<Rightarrow>
                  if dirname real_dst \<noteq> [] \<and> \<not> isdir t (dirname real_dst)
                  then Inl (FileNotFoundError real_dst)
                  else Inr (rename_tree src real_dst t)
              | Some Dir \<Rightarrow>
                  if path_exists t real_dst then Inl (FileExistsError real_dst)
                  else if under src real_dst
                  then Inl (ShutilError ''Cannot move a directory into itself'')
                  else (case (if dirname real_dst = [] then Inr t else makedirs (dirname real_dst) t) of
                          Inl e \<Rightarrow> Inl e
                        | Inr t1 \<Rightarrow> Inr (rename_tree src real_dst t1)))"

text \<open>
  \<^verbatim>\<open>shutil.copytree(src, dst, dirs_exist_ok=ok)\<close>. The walk visits every path inside
  \<open>src\<close>; a directory is created at the same place inside \<open>dst\<close> (an error when a file
  is there), a file is copied with \<^verbatim>\<open>copy2\<close> (into the directory, when a directory is
  there). Nothing that \<open>dst\<close> held and \<open>src\<close> does not name is touched: the copy merges.
  \<^verbatim>\<open>copytree\<close> collects the errors of the walk and raises them together at the end; the
  model raises one error and keeps the file system it started from.
\<close>

definition walk :: "filesystem \<Rightarrow> path \<Rightarrow> path list" where
  "walk t src = filter (inside src) (remdups (map fst t))"

definition copy_target :: "filesystem \<Rightarrow> path \<Rightarrow> path \<Rightarrow> path \<Rightarrow> path" where
  "copy_target t src dst p =
     (if isfile t p \<and> isdir t (rebase src dst p) then join (rebase src dst p) (basename p)
      else rebase src dst p)"

definition copy_clash :: "filesystem \<Rightarrow> path \<Rightarrow> path \<Rightarrow> path \<Rightarrow> bool" where
  "copy_clash t src dst p =
     (if isfile t p then isdir t (copy_target t src dst p) else isfile t (rebase src dst p))"

definition copytree :: "path \<Rightarrow> path \<Rightarrow> bool \<Rightarrow> filesystem \<Rightarrow> py_error + filesystem" where
  "copytree src0 dst0 ok t =
     (let src = normpath src0; dst = normpath dst0
      in case lookup t src of
           None \<Rightarrow> Inl (FileNotFoundError src)
         | Some (File _) \<Rightarrow> Inl (NotADirectoryError src)
         | Some Dir \<Rightarrow>
             if \<not> ok \<and> path_exists t dst then Inl (FileExistsError dst)
             else (case makedirs dst t of
                     Inl e \<Rightarrow> Inl e
                   | Inr t1 \<Rightarrow>
                       if list_ex (copy_clash t src dst) (walk t src)
                       then Inl (ShutilError ''copytree'')
                       else Inr (map (\<lambda>p. (copy_target t src dst p, the (map_of t p))) (walk t src) @ t1)))"

text \<open>\<^verbatim>\<open>shutil.rmtree\<close> and \<^verbatim>\<open>os.remove\<close> take a path and what is inside it away;
  \<^verbatim>\<open>os.listdir\<close> names what is directly inside a directory.\<close>

definition remove_tree :: "path \<Rightarrow> filesystem \<Rightarrow> filesystem" where
  "remove_tree p t = filter (\<lambda>(q, n). \<not> under (normpath p) q) t"

definition listdir :: "filesystem \<Rightarrow> path \<Rightarrow> path list" where
  "listdir t d = map basename (filter (\<lambda>p. inside (normpath d) p \<and> dirname p = normpath d) (remdups (map fst t)))"


subsection \<open>Decimal numbers in file names\<close>

definition digit_char :: "nat \<Rightarrow> char" where
  "digit_char d = ''0123456789'' ! d"

fun str_nat :: "nat \<Rightarrow> string" where
  "str_nat n = (if n < 10 then [digit_char n] else str_nat (n div 10) @ [digit_char (n mod 10)])"

declare str_nat.simps [simp del]

definition str_int :: "int \<Rightarrow> string" where
  "str_int i = (if i < 0 then ''-'' @ str_nat (nat (- i)) else str_nat (nat i))"

lemma digit_char_inj: "a < 10 \<Longrightarrow> b < 10 \<Longrightarrow> digit_char a = digit_char b \<Longrightarrow> a = b"
proof -
  have d: "distinct ''0123456789''" by simp
  have l: "length ''0123456789'' = 10" by simp
  show "a < 10 \<Longrightarrow> b < 10 \<Longrightarrow> digit_char a = digit_char b \<Longrightarrow> a = b"
    unfolding digit_char_def using d l nth_eq_iff_index_eq by metis
qed

lemma digit_not_slash: "d < 10 \<Longrightarrow> digit_char d \<noteq> CHR ''/''"
proof -
  assume "d < 10"
  moreover have "length ''0123456789'' = 10" by simp
  ultimately have "digit_char d \<in> set ''0123456789''"
    unfolding digit_char_def using nth_mem by metis
  then show ?thesis by auto
qed

lemma str_nat_nonempty [simp]: "str_nat n \<noteq> []" "[] \<noteq> str_nat n"
  by (subst str_nat.simps, simp)+

lemma str_nat_last: "last (str_nat n) = digit_char (n mod 10)"
  by (subst str_nat.simps) simp

lemma str_nat_butlast: "butlast (str_nat n) = (if n < 10 then [] else str_nat (n div 10))"
  by (subst str_nat.simps) simp

lemma str_nat_inj: "str_nat n = str_nat m \<Longrightarrow> n = m"
proof (induction n arbitrary: m rule: str_nat.induct)
  case (1 n)
  from 1(2) have "digit_char (n mod 10) = digit_char (m mod 10)"
    by (metis str_nat_last)
  then have units: "n mod 10 = m mod 10" by (simp add: digit_char_inj)
  from 1(2) have front: "butlast (str_nat n) = butlast (str_nat m)" by simp
  show ?case
  proof (cases "n < 10")
    case True
    with front have "m < 10" by (auto simp: str_nat_butlast split: if_splits)
    with True units show ?thesis by simp
  next
    case False
    with front have "str_nat (n div 10) = str_nat (m div 10)"
      by (auto simp: str_nat_butlast split: if_splits)
    from 1(1)[OF False this] units show ?thesis by (metis div_mult_mod_eq)
  qed
qed

subsection \<open>make\_unique\_path\<close>

text \<open>
  The \<^verbatim>\<open>while\<close> loop of \<^verbatim>\<open>make_unique_path\<close> (the same text in startup.py and
  startup2.py): \<open>stem\<close> is \<^verbatim>\<open>f"{path_base}.{timestamp}"\<close>, the first candidate is the
  stem, and the candidate after a taken one is the stem with the next counter. The loop
  ends because the table is finite and the counters give different names; the measure
  counts the taken names that are still ahead.
\<close>

definition taken :: "filesystem \<Rightarrow> path \<Rightarrow> nat \<Rightarrow> nat" where
  "taken t stem c = card {k. c \<le> k \<and> path_exists t (stem @ CHR ''.'' # str_nat k)}"

lemma normpath_id: "p \<noteq> [] \<Longrightarrow> last p \<noteq> CHR ''/'' \<Longrightarrow> normpath p = p"
proof -
  assume "p \<noteq> []" and "last p \<noteq> CHR ''/''"
  then have "dropWhile (\<lambda>c. c = CHR ''/'') (rev p) = rev p"
    by (cases p rule: rev_cases) simp_all
  then show ?thesis using \<open>p \<noteq> []\<close> by (simp add: normpath_def)
qed

lemma normpath_numbered [simp]:
  "normpath (stem @ CHR ''.'' # str_nat k) = stem @ CHR ''.'' # str_nat k"
proof -
  have "last (stem @ CHR ''.'' # str_nat k) = digit_char (k mod 10)"
    by (simp add: str_nat_last)
  then show ?thesis by (simp add: normpath_id digit_not_slash)
qed

lemma numbered_inj: "inj (\<lambda>k. stem @ CHR ''.'' # str_nat k)"
  by (auto simp: inj_def dest: str_nat_inj)

lemma finite_taken: "finite {k. c \<le> k \<and> path_exists t (stem @ CHR ''.'' # str_nat k)}"
proof -
  have "{k. path_exists t (stem @ CHR ''.'' # str_nat k)}
          \<subseteq> (\<lambda>k. stem @ CHR ''.'' # str_nat k) -` (fst ` set t)"
    by (auto simp: path_exists_def lookup_def map_of_eq_None_iff image_iff)
  moreover have "finite ((\<lambda>k. stem @ CHR ''.'' # str_nat k) -` (fst ` set t))"
    by (rule finite_vimageI[OF _ numbered_inj]) simp
  ultimately have "finite {k. path_exists t (stem @ CHR ''.'' # str_nat k)}"
    by (rule finite_subset)
  then show ?thesis by simp
qed

lemma taken_step:
  "taken t stem c =
     taken t stem (Suc c) + (if path_exists t (stem @ CHR ''.'' # str_nat c) then 1 else 0)"
proof -
  let ?S = "\<lambda>c. {k. c \<le> k \<and> path_exists t (stem @ CHR ''.'' # str_nat k)}"
  show ?thesis
  proof (cases "path_exists t (stem @ CHR ''.'' # str_nat c)")
    case True
    then have "?S c = insert c (?S (Suc c))" by (auto simp: le_Suc_eq Suc_le_eq)
    moreover have "c \<notin> ?S (Suc c)" by simp
    ultimately show ?thesis using True finite_taken[of "Suc c" t stem] by (simp add: taken_def)
  next
    case False
    then have "?S c = ?S (Suc c)" by (auto simp: Suc_le_eq) (metis le_neq_implies_less)
    with False show ?thesis by (simp add: taken_def)
  qed
qed

function unique_loop :: "filesystem \<Rightarrow> path \<Rightarrow> nat \<Rightarrow> path \<Rightarrow> path" where
  "unique_loop t stem counter candidate =
     (if path_exists t candidate
      then unique_loop t stem (counter + 1) (stem @ ''.'' @ str_nat (counter + 1))
      else candidate)"
  by pat_completeness auto
termination
proof (relation "measure (\<lambda>(t, stem, counter, candidate).
          2 * taken t stem (counter + 1) + (if path_exists t candidate then 1 else 0))")
  show "wf (measure (\<lambda>(t, stem, counter, candidate).
          2 * taken t stem (counter + 1) + (if path_exists t candidate then 1 else 0)))"
    by simp
next
  fix t stem counter candidate
  assume "path_exists t candidate"
  then show "((t, stem, counter + 1, stem @ ''.'' @ str_nat (counter + 1)),
              (t, stem, counter, candidate))
    \<in> measure (\<lambda>(t, stem, counter, candidate).
          2 * taken t stem (counter + 1) + (if path_exists t candidate then 1 else 0))"
    using taken_step[of t stem "counter + 1"] by simp
qed

declare unique_loop.simps [simp del]

definition time_now :: "env \<Rightarrow> world \<Rightarrow> int \<times> world" where
  "time_now ev w = (clock ev (ticks w), w\<lparr>ticks := Suc (ticks w)\<rparr>)"

definition make_unique_path :: "env \<Rightarrow> path \<Rightarrow> world \<Rightarrow> path \<times> world" where
  "make_unique_path ev path_base w =
     (if \<not> path_exists (fs w) path_base then (path_base, w)
      else (let (timestamp, w1) = time_now ev w;
                stem = path_base @ ''.'' @ str_int timestamp
            in (unique_loop (fs w) stem 0 stem, w1)))"

subsection \<open>Commands, processes and requests\<close>

text \<open>
  \<^verbatim>\<open>subprocess.run(cmd, check=False)\<close>, then \<^verbatim>\<open>run_cmd\<close> of startup.py and startup2.py,
  which runs with \<^verbatim>\<open>check=True\<close> by default, logs a \<^verbatim>\<open>CalledProcessError\<close> and raises it
  again. A command given as one string runs through the shell.
\<close>

definition subprocess_run :: "env \<Rightarrow> string list \<Rightarrow> proc comp" where
  "subprocess_run ev c w =
     (let w1 = emit (Run c) w
      in case run ev (commands_run w) c (fs w) of
           Inl e \<Rightarrow> (Inl e, w1)
         | Inr (p, t) \<Rightarrow> (Inr p, w1\<lparr>fs := t\<rparr>))"

definition run_cmd_check :: "env \<Rightarrow> string list \<Rightarrow> bool \<Rightarrow> proc comp" where
  "run_cmd_check ev c check w =
     (case subprocess_run ev c w of
        (Inl e, w1) \<Rightarrow> (Inl e, w1)
      | (Inr p, w1) \<Rightarrow>
          if check \<and> returncode p \<noteq> 0
          then (Inl (CalledProcessError c (returncode p)), logger ERROR ''Command failed: {display}'' w1)
          else (Inr p, w1))"

definition run_cmd :: "env \<Rightarrow> string list \<Rightarrow> unit comp" where
  "run_cmd ev c = bind (run_cmd_check ev c True) (\<lambda>_. return ())"

definition run_cmd_output :: "env \<Rightarrow> string list \<Rightarrow> string comp" where
  "run_cmd_output ev c = bind (run_cmd_check ev c True) (\<lambda>p. return (stdout p))"

definition shell :: "string \<Rightarrow> string list" where
  "shell c = [''/bin/sh'', ''-c'', c]"

definition popen :: "env \<Rightarrow> string list \<Rightarrow> unit comp" where
  "popen ev c w =
     (case spawn ev c of
        None \<Rightarrow> (Inr (), emit (Spawn c) w)
      | Some e \<Rightarrow> (Inl e, emit (Spawn c) w))"

definition urlopen :: "env \<Rightarrow> string \<Rightarrow> url \<Rightarrow> response comp" where
  "urlopen ev method u w =
     (case http ev (net_attempts w) u of
        Inl e \<Rightarrow> (Inl e, emit (Http method u) w)
      | Inr r \<Rightarrow> (Inr r, emit (Http method u) w))"

text \<open>\<^verbatim>\<open>urllib.request.urlretrieve(url, target)\<close>, the download of startup.py: one request,
  the body written to the target.\<close>

definition urlretrieve :: "env \<Rightarrow> url \<Rightarrow> path \<Rightarrow> unit comp" where
  "urlretrieve ev u target =
     bind (urlopen ev ''GET'' u) (\<lambda>r. fs_op (write_file target (body r)))"

section \<open>sha256\_of\_file\<close>

text \<open>
  \<^verbatim>\<open>hashlib\<close> is not part of the repository; the hash object is a parameter: its fresh
  state, its \<^verbatim>\<open>update\<close> and its \<^verbatim>\<open>hexdigest\<close>.

  \<^verbatim>\<open>open(path, "rb")\<close> gives the content of a regular file. A directory is an
  \<^verbatim>\<open>IsADirectoryError\<close>, a missing path a \<^verbatim>\<open>FileNotFoundError\<close>, and the name of a regular
  file followed by a separator a \<^verbatim>\<open>NotADirectoryError\<close>.

  \<^verbatim>\<open>f.read(n)\<close> of a file opened in binary mode first allocates the \<open>n\<close> bytes it may
  return. On the 64-bit interpreter a size that does not fit an index
  (\<open>n > PY_SSIZE_T_MAX\<close>, or \<open>n < - PY_SSIZE_T_MAX - 1\<close>) is an \<^verbatim>\<open>OverflowError\<close>, and so is
  a size within 33 bytes of that bound, which no byte string can have; a size below \<open>-1\<close>
  is a \<^verbatim>\<open>ValueError\<close>; a size the interpreter cannot allocate (more than \<open>memory\<close> bytes) is
  a \<^verbatim>\<open>MemoryError\<close>. Otherwise the call returns the next \<open>n\<close> bytes of what is left of the
  file, and everything that is left when \<open>n = -1\<close>. The loop
  \<^verbatim>\<open>for chunk in iter(lambda: f.read(chunk_size), b"")\<close> ends at the first empty chunk.
\<close>

record 's hashlib =
  new :: 's
  update :: "'s \<Rightarrow> bytes \<Rightarrow> 's"
  hexdigest :: "'s \<Rightarrow> string"

definition PY_SSIZE_T_MAX :: int where
  "PY_SSIZE_T_MAX = 2 ^ 63 - 1"

text \<open>An interpreter that has opened a file has allocated the 8192 bytes of its buffer.\<close>

definition allocatable :: "env \<Rightarrow> int" where
  "allocatable ev = max 8192 (free_bytes ev)"

definition open_rb :: "filesystem \<Rightarrow> path \<Rightarrow> py_error + bytes" where
  "open_rb t p =
     (case lookup t p of
        None \<Rightarrow> Inl (FileNotFoundError p)
      | Some Dir \<Rightarrow> Inl (IsADirectoryError p)
      | Some (File content) \<Rightarrow>
          if p \<noteq> [] \<and> last p = CHR ''/'' then Inl (NotADirectoryError p) else Inr content)"

definition file_read :: "int \<Rightarrow> int \<Rightarrow> bytes \<Rightarrow> py_error + bytes" where
  "file_read memory n rest =
     (if n > PY_SSIZE_T_MAX \<or> n < - PY_SSIZE_T_MAX - 1
      then Inl (OverflowError ''cannot fit int into an index-sized integer'')
      else if n < -1 then Inl (ValueError ''read length must be non-negative or -1'')
      else if n = -1 then Inr rest
      else if n > PY_SSIZE_T_MAX - 33 then Inl (OverflowError ''byte string is too large'')
      else if n > memory then Inl MemoryError
      else Inr (take (nat n) rest))"

lemma file_read_shorter:
  "file_read memory n rest = Inr chunk \<Longrightarrow> chunk \<noteq> [] \<Longrightarrow>
   length rest - length chunk < length rest"
  by (cases rest; cases chunk) (auto simp: file_read_def split: if_splits)

function hash_chunks :: "'s hashlib \<Rightarrow> int \<Rightarrow> int \<Rightarrow> bytes \<Rightarrow> 's \<Rightarrow> py_error + 's" where
  "hash_chunks H memory chunk_size rest h =
     (case file_read memory chunk_size rest of
        Inl e \<Rightarrow> Inl e
      | Inr chunk \<Rightarrow>
          if chunk = [] then Inr h
          else hash_chunks H memory chunk_size (drop (length chunk) rest) (update H h chunk))"
  by pat_completeness auto
termination
  by (relation "measure (\<lambda>(H, memory, chunk_size, rest, h). length rest)")
    (auto simp: file_read_shorter)

declare hash_chunks.simps [simp del]

definition sha256_of_file ::
  "'s hashlib \<Rightarrow> int \<Rightarrow> filesystem \<Rightarrow> path \<Rightarrow> int \<Rightarrow> py_error + string" where
  "sha256_of_file H memory t p chunk_size =
     (case open_rb t p of
        Inl e \<Rightarrow> Inl e
      | Inr content \<Rightarrow>
          (case hash_chunks H memory chunk_size content (new H) of
             Inl e \<Rightarrow> Inl e
           | Inr h \<Rightarrow> Inr (hexdigest H h)))"

text \<open>The same digest in one step: \<^verbatim>\<open>hashlib.sha256(content).hexdigest()\<close>.\<close>

definition sha256_whole :: "'s hashlib \<Rightarrow> bytes \<Rightarrow> string" where
  "sha256_whole H content = hexdigest H (update H (new H) content)"

text \<open>
  The hash object the installers use: the one whose state is the message fed so far and
  whose digest is the oracle's \<open>sha256\<close> of that message, as \<^verbatim>\<open>hashlib\<close> documents it
  (repeated \<^verbatim>\<open>update\<close> calls are the \<^verbatim>\<open>update\<close> of the concatenation).
\<close>

definition hashlib_sha256 :: "env \<Rightarrow> bytes hashlib" where
  "hashlib_sha256 ev = \<lparr>new = [], update = (\<lambda>h c. h @ c), hexdigest = sha256 ev\<rparr>"

section \<open>The downloader of startup2.py\<close>

text \<open>
  \<^verbatim>\<open>range(1, retries + 1)\<close> is the list \<open>[1..retries]\<close>, empty when \<open>retries \<le> 0\<close>.
  One iteration of the loop opens the URL (one network request, answered by the oracle
  \<open>http\<close> at the index of the request), creates the target's directory and writes the
  body. Every exception raised inside the \<^verbatim>\<open>try\<close> block is caught by one of the three
  \<^verbatim>\<open>except\<close> clauses, stored in \<^verbatim>\<open>last_err\<close>, and followed by \<^verbatim>\<open>time.sleep(1 + attempt)\<close>.
  \<^verbatim>\<open>last_err\<close> is a local variable that no statement before the loop assigns: it is
  \<open>None\<close> until an iteration fails, and raising it unassigned is Python's
  \<^verbatim>\<open>UnboundLocalError\<close>.
\<close>

definition save_body :: "path \<Rightarrow> bytes \<Rightarrow> filesystem \<Rightarrow> py_error + filesystem" where
  "save_body target b t =
     (case makedirs (if dirname target = [] then ''.'' else dirname target) t of
        Inl e \<Rightarrow> Inl e
      | Inr t1 \<Rightarrow> write_file target b t1)"

definition fetch_once :: "env \<Rightarrow> url \<Rightarrow> path \<Rightarrow> unit comp" where
  "fetch_once ev u target =
     bind (urlopen ev ''GET'' u) (\<lambda>r. fs_op (save_body target (body r)))"

definition warn_of :: "py_error \<Rightarrow> string" where
  "warn_of e =
     (case e of
        HTTPError _ \<Rightarrow> ''HTTP error downloading {url}: {e.code} {e.reason}''
      | URLError _ \<Rightarrow> ''URL error downloading {url}: {e.reason}''
      | _ \<Rightarrow> ''Error downloading {url}: {e}'')"

fun download_loop ::
  "env \<Rightarrow> url \<Rightarrow> path \<Rightarrow> int list \<Rightarrow> py_error option \<Rightarrow> path comp" where
  "download_loop ev u target [] last_err w =
     (let w1 = logger ERROR ''Failed to download {url} after {retries} attempts'' w
      in case last_err of
           None \<Rightarrow> (Inl (UnboundLocalError ''last_err''), w1)
         | Some e \<Rightarrow> (Inl e, w1))"
| "download_loop ev u target (attempt # rest) last_err w =
     (case fetch_once ev u target w of
        (Inr _, w1) \<Rightarrow> (Inr target, w1)
      | (Inl e, w1) \<Rightarrow>
          download_loop ev u target rest (Some e)
            (emit (Sleep (1 + attempt)) (logger WARNING (warn_of e) w1)))"

definition download_with_retries :: "env \<Rightarrow> url \<Rightarrow> path \<Rightarrow> int \<Rightarrow> path comp" where
  "download_with_retries ev u target retries w =
     download_loop ev u target [1..retries] None w"

section \<open>String helpers of the scripts\<close>

definition contains :: "string \<Rightarrow> string \<Rightarrow> bool" where
  "contains hay needle = list_ex (prefix needle) (suffixes hay)"

definition py_lower :: "string \<Rightarrow> string" where
  "py_lower s =
     map (\<lambda>c. case map_of (zip ''ABCDEFGHIJKLMNOPQRSTUVWXYZ'' ''abcdefghijklmnopqrstuvwxyz'') c of
                 None \<Rightarrow> c | Some l \<Rightarrow> l) s"

definition is_space :: "char \<Rightarrow> bool" where
  "is_space c = (c \<in> set [CHR '' '', CHR 0x09, CHR 0x0A, CHR 0x0B, CHR 0x0C, CHR 0x0D])"

definition strip :: "string \<Rightarrow> string" where
  "strip s = rev (dropWhile is_space (rev (dropWhile is_space s)))"

section \<open>Configuration of startup.py and startup2.py\<close>

definition REPO_URL :: url where
  "REPO_URL = ''https://github.com/Abr-ahamis/startup.git''"

definition REPO_DIRNAME :: path where
  "REPO_DIRNAME = ''startup''"

definition DOWNLOADS_DIRNAME :: path where
  "DOWNLOADS_DIRNAME = ''downloads''"

definition VSCODE_DEB_URL :: url where
  "VSCODE_DEB_URL = ''https://code.visualstudio.com/sha/download?build=stable&os=linux-deb-x64''"

definition TELEGRAM_DL_PAGE :: url where
  "TELEGRAM_DL_PAGE = ''https://telegram.org/dl/desktop/linux''"

definition BRAVE_INSTALLER_URL :: url where
  "BRAVE_INSTALLER_URL = ''https://dl.brave.com/install.sh''"

definition PROTONVPN_DEB_URL :: url where
  "PROTONVPN_DEB_URL =
     ''https://repo.protonvpn.com/debian/dists/stable/main/binary-all/protonvpn-stable-release_1.0.8_all.deb''"

definition PROTONVPN_SHA256 :: string where
  "PROTONVPN_SHA256 = ''0b14e71586b22e498eb20926c48c7b434b751149b1f2af9902ef1cfe6b03e180''"

text \<open>startup2.py only: startup.py uses the name without defining it.\<close>

definition RUSTSCAN_DEB_URL :: url where
  "RUSTSCAN_DEB_URL =
     ''https://github.com/RustScan/RustScan/releases/download/2.2.3/rustscan_2.2.3_amd64.deb''"

definition GRUB_CFG_SRC :: path where
  "GRUB_CFG_SRC = ''grub.cfg''"

definition KALI_THEME_SRC :: path where
  "KALI_THEME_SRC = ''kali''"

definition WALLPAPER_DIR :: path where
  "WALLPAPER_DIR = ''wallpaper''"

definition WALLPAPER_FILES :: "(path \<times> path) list" where
  "WALLPAPER_FILES =
     [(''20-wallpaper.svg'', ''/usr/share/backgrounds/kali/login.svg''),
      (''12-wallpaper.png'', ''/usr/share/backgrounds/kali/kali-maze-16x9.jpg''),
      (''1-wallpaper.png'', ''/usr/share/backgrounds/kali/kali-tiles-16x9.jpg''),
      (''2-wallpaper.png'', ''/usr/share/backgrounds/kali/kali-waves-16x9.png''),
      (''3-wallpaper.png'', ''/usr/share/backgrounds/kali/kali-oleo-16x9.png''),
      (''4-wallpaper.png'', ''/usr/share/backgrounds/kali/kali-tiles-purple-16x9.jpg'')]"

definition WALLPAPER_FILES_TO_BACKUP :: "path list" where
  "WALLPAPER_FILES_TO_BACKUP =
     [''kali-maze-16x9.jpg'', ''kali-tiles-16x9.jpg'', ''kali-oleo-16x9.png'',
      ''kali-tiles-purple-16x9.jpg'', ''kali-waves-16x9.png'', ''login.svg'', ''login-blurred'']"

definition DESIRED_FONT_FAMILY :: string where
  "DESIRED_FONT_FAMILY = ''DejaVu Serif Condensed''"

definition DESIRED_FONT_PACKAGE :: string where
  "DESIRED_FONT_PACKAGE = ''fonts-dejavu-core''"

definition DESIRED_FONT_SETTING :: string where
  "DESIRED_FONT_SETTING = DESIRED_FONT_FAMILY @ '' 10''"

section \<open>The steps startup.py and startup2.py share\<close>

text \<open>
  The functions of this section have the same statements in both files (the files differ
  in the wording of their log lines). Of the log lines the model keeps the first line of
  each function and what is logged when something fails. A relative path is read from the
  working directory: the file system calls of \<^verbatim>\<open>clone_repo\<close> act on its absolute form.
\<close>

definition total :: "(world \<Rightarrow> 'a \<times> world) \<Rightarrow> 'a comp" where
  "total f w = (case f w of (x, w1) \<Rightarrow> (Inr x, w1))"

definition clone_repo :: "env \<Rightarrow> url \<Rightarrow> path \<Rightarrow> unit comp" where
  "clone_repo ev repo_url dest_dir w =
     (if isdir (fs w) (abspath ev dest_dir)
      then try_except (run_cmd ev [''git'', ''-C'', dest_dir, ''pull''])
             (\<lambda>e. steps
                [say WARNING ''git pull failed; renaming existing directory and cloning fresh.'',
                 bind (total (time_now ev))
                   (\<lambda>ts. fs_op (shutil_move (abspath ev dest_dir)
                                  (abspath ev (dest_dir @ ''.bak-'' @ str_int ts)))),
                 run_cmd ev [''git'', ''clone'', repo_url, dest_dir]]) w
      else run_cmd ev [''git'', ''clone'', repo_url, dest_dir] w)"

definition setup_downloads :: "path \<Rightarrow> path comp" where
  "setup_downloads repo_path =
     bind (safe_makedirs (join repo_path DOWNLOADS_DIRNAME))
       (\<lambda>_. return (join repo_path DOWNLOADS_DIRNAME))"

text \<open>The backup every caller of \<^verbatim>\<open>make_unique_path\<close> makes with it:
  \<^verbatim>\<open>dest = make_unique_path(base); shutil.move(target, dest)\<close>.\<close>

definition backup_to :: "env \<Rightarrow> path \<Rightarrow> path \<Rightarrow> unit comp" where
  "backup_to ev target path_base =
     bind (total (make_unique_path ev path_base)) (\<lambda>dest. fs_op (shutil_move target dest))"

text \<open>\<^verbatim>\<open>backup_and_copy_grub\<close> in its three parts: grub.cfg, the theme under /boot, the
  theme under /usr/share.\<close>

definition grub_cfg_steps :: "env \<Rightarrow> path \<Rightarrow> unit comp list" where
  "grub_cfg_steps ev repo_path =
     [when_fs (\<lambda>t. path_exists t ''/boot/grub/grub.cfg'')
        (backup_to ev ''/boot/grub/grub.cfg'' (''/boot/grub/grub.cfg'' @ ''.b'')),
      require_fs (\<lambda>t. path_exists t (join repo_path GRUB_CFG_SRC))
        (FileNotFoundError (join repo_path GRUB_CFG_SRC)),
      safe_makedirs ''/boot/grub'',
      fs_op (shutil_copy (join repo_path GRUB_CFG_SRC) ''/boot/grub/''),
      safe_makedirs ''/boot/grub/themes/backup'',
      safe_makedirs ''/usr/share/grub/themes/backup'']"

definition boot_theme_steps :: "env \<Rightarrow> path \<Rightarrow> unit comp list" where
  "boot_theme_steps ev repo_path =
     [when_fs (\<lambda>t. isdir t ''/boot/grub/themes/kali'')
        (backup_to ev ''/boot/grub/themes/kali'' ''/boot/grub/themes/backup/kali.b''),
      require_fs (\<lambda>t. isdir t (join repo_path KALI_THEME_SRC))
        (FileNotFoundError (join repo_path KALI_THEME_SRC)),
      safe_makedirs ''/boot/grub/themes'',
      fs_op (copytree (join repo_path KALI_THEME_SRC) ''/boot/grub/themes/kali'' True)]"

definition usr_theme_steps :: "env \<Rightarrow> unit comp list" where
  "usr_theme_steps ev =
     [when_fs (\<lambda>t. isdir t ''/usr/share/grub/themes/kali'')
        (backup_to ev ''/usr/share/grub/themes/kali'' ''/usr/share/grub/themes/backup/kali.b''),
      safe_makedirs ''/usr/share/grub/themes'',
      fs_op (copytree ''/boot/grub/themes/kali'' ''/usr/share/grub/themes/kali'' True)]"

definition backup_and_copy_grub :: "env \<Rightarrow> path \<Rightarrow> unit comp" where
  "backup_and_copy_grub ev repo_path =
     steps (say INFO ''Backing up and copying GRUB themes and grub.cfg''
            # grub_cfg_steps ev repo_path @ boot_theme_steps ev repo_path @ usr_theme_steps ev)"

definition backup_wallpaper :: "env \<Rightarrow> path \<Rightarrow> path \<Rightarrow> path \<Rightarrow> unit comp" where
  "backup_wallpaper ev target_dir backup_dir f =
     when_fs (\<lambda>t. path_exists t (join target_dir f))
       (bind (total (make_unique_path ev (join backup_dir (f @ ''.b''))))
          (\<lambda>dest. steps [safe_makedirs (dirname dest),
                          fs_op (shutil_move (join target_dir f) dest)]))"

definition copy_wallpaper :: "path \<Rightarrow> path \<times> path \<Rightarrow> unit comp" where
  "copy_wallpaper wallpaper_repo_path entry =
     (case entry of (src_name, dest) \<Rightarrow>
        steps [require_fs (\<lambda>t. path_exists t (join wallpaper_repo_path src_name))
                 (FileNotFoundError (join wallpaper_repo_path src_name)),
               safe_makedirs (dirname dest),
               fs_op (shutil_copy (join wallpaper_repo_path src_name) dest)])"

definition backup_and_copy_wallpapers :: "env \<Rightarrow> path \<Rightarrow> unit comp" where
  "backup_and_copy_wallpapers ev repo_path =
     steps ([say INFO ''Backing up and copying wallpapers'',
             require_fs (\<lambda>t. isdir t (join repo_path WALLPAPER_DIR))
               (FileNotFoundError (join repo_path WALLPAPER_DIR)),
             safe_makedirs (join ''/usr/share/backgrounds/kali'' ''backup'')]
            @ map (backup_wallpaper ev ''/usr/share/backgrounds/kali''
                     (join ''/usr/share/backgrounds/kali'' ''backup'')) WALLPAPER_FILES_TO_BACKUP
            @ map (copy_wallpaper (join repo_path WALLPAPER_DIR)) WALLPAPER_FILES)"

text \<open>
  The arguments of the \<^verbatim>\<open>make_unique_path\<close> calls of one run of \<^verbatim>\<open>main\<close>, in the order of
  the calls: the three of \<^verbatim>\<open>backup_and_copy_grub\<close>, then one for each name the first loop
  of \<^verbatim>\<open>backup_and_copy_wallpapers\<close> visits.
\<close>

definition backup_bases :: "path list" where
  "backup_bases =
     [''/boot/grub/grub.cfg'' @ ''.b'',
      ''/boot/grub/themes/backup/kali.b'',
      ''/usr/share/grub/themes/backup/kali.b'']
     @ map (\<lambda>f. join (join ''/usr/share/backgrounds/kali'' ''backup'') (f @ ''.b''))
         WALLPAPER_FILES_TO_BACKUP"

definition dash_to_dock_settings :: "(string \<times> string) list" where
  "dash_to_dock_settings =
     [(''dock-position'', ''LEFT''), (''autohide'', ''true''), (''animation-time'', ''0.0''),
      (''hide-delay'', ''0.0''), (''pressure-threshold'', ''0.0''), (''dash-max-icon-size'', ''20'')]"

definition configure_dash_to_dock :: "env \<Rightarrow> unit comp" where
  "configure_dash_to_dock ev =
     steps (say INFO ''Configuring Dash-to-Dock''
            # map (\<lambda>(k, v). run_cmd ev [''gsettings'', ''set'',
                     ''org.gnome.shell.extensions.dash-to-dock'', k, v]) dash_to_dock_settings
            @ map (\<lambda>(k, v). bind (run_cmd_output ev [''gsettings'', ''get'',
                     ''org.gnome.shell.extensions.dash-to-dock'', k]) (\<lambda>out. return ()))
                dash_to_dock_settings)"

text \<open>\<^verbatim>\<open>cleanup_downloads\<close>: every entry of the downloads folder is removed; a missing folder
  is logged and nothing else, any other failure of the listing is raised.\<close>

definition cleanup_downloads :: "path \<Rightarrow> unit comp" where
  "cleanup_downloads downloads_dir w =
     (let w1 = logger INFO ''Cleaning up downloads folder'' w
      in case lookup (fs w1) downloads_dir of
           None \<Rightarrow> (Inr (), logger DEBUG ''Downloads folder not found for cleanup.'' w1)
         | Some (File _) \<Rightarrow> (Inl (NotADirectoryError downloads_dir), w1)
         | Some Dir \<Rightarrow>
             (Inr (), logger INFO ''Cleanup complete.''
                (w1\<lparr>fs := fold (\<lambda>entry. remove_tree (join downloads_dir entry))
                             (listdir (fs w1) downloads_dir) (fs w1)\<rparr>)))"

text \<open>The check both \<^verbatim>\<open>install_protonvpn\<close> make after the download; the two files word the
  error differently.\<close>

definition verify_protonvpn :: "env \<Rightarrow> path \<Rightarrow> string \<Rightarrow> unit comp" where
  "verify_protonvpn ev target msg w =
     (case sha256_of_file (hashlib_sha256 ev) (allocatable ev) (fs w) target 8192 of
        Inl e \<Rightarrow> (Inl e, w)
      | Inr actual \<Rightarrow>
          if actual \<noteq> PROTONVPN_SHA256
          then (Inl (RuntimeError msg), logger ERROR ''ProtonVPN .deb SHA256 mismatch. Aborting.'' w)
          else (Inr (), w))"

text \<open>The end of \<^verbatim>\<open>install_brave\<close>: the desktop file, if one is installed, is added to the
  favourites that do not name it yet.\<close>

definition brave_desktop_file :: "filesystem \<Rightarrow> string" where
  "brave_desktop_file t =
     (case filter (\<lambda>f. isfile t (join ''/usr/share/applications'' f))
             [''brave-browser.desktop'', ''brave-browser-nightly.desktop'', ''brave.desktop''] of
        [] \<Rightarrow> ''''
      | f # _ \<Rightarrow> f)"

definition pin_brave :: "env \<Rightarrow> unit comp" where
  "pin_brave ev w =
     (let desktop_file = brave_desktop_file (fs w)
      in if desktop_file = [] then (Inr (), w)
         else bind (run_cmd_output ev [''gsettings'', ''get'', ''org.gnome.shell'', ''favorite-apps''])
                (\<lambda>favs_out.
                   let favs = strip favs_out
                   in if contains favs desktop_file then return ()
                      else run_cmd ev [''gsettings'', ''set'', ''org.gnome.shell'', ''favorite-apps'',
                             (if suffix '']'' favs
                              then butlast favs @ '', '' @ [CHR 0x27] @ desktop_file @ [CHR 0x27] @ '']''
                              else favs @ '' ['' @ [CHR 0x27] @ desktop_file @ [CHR 0x27] @ '']'')]) w)"

definition run_brave_installer :: "env \<Rightarrow> path \<Rightarrow> unit comp" where
  "run_brave_installer ev installer_path =
     steps [run_cmd ev (shell (''sh '' @ installer_path)),
            pin_brave ev,
            say INFO ''Brave installation attempted.'']"

section \<open>The installers of startup2.py\<close>

fun head_candidates :: "env \<Rightarrow> url list \<Rightarrow> url option comp" where
  "head_candidates ev [] w = (Inr None, w)"
| "head_candidates ev (c # cs) w =
     (case urlopen ev ''HEAD'' c w of
        (Inr r, w1) \<Rightarrow> if status r = 200 then (Inr (Some c), w1) else head_candidates ev cs w1
      | (Inl e, w1) \<Rightarrow> head_candidates ev cs w1)"

definition redirect_or_tsetup :: "env \<Rightarrow> response \<Rightarrow> url option" where
  "redirect_or_tsetup ev r =
     (if final_url r \<noteq> [] \<and> suffix ''.tar.xz'' (final_url r) then Some (final_url r)
      else tsetup_link ev (body r))"

definition startup2_telegram_url :: "env \<Rightarrow> url comp" where
  "startup2_telegram_url ev =
     bind (try_except (bind (urlopen ev ''GET'' TELEGRAM_DL_PAGE) (\<lambda>r. return (Some r)))
             (\<lambda>e. bind (say WARNING ''Could not fetch Telegram page: {e}'') (\<lambda>_. return None)))
       (\<lambda>page.
          let first = (case page of None \<Rightarrow> None | Some r \<Rightarrow> redirect_or_tsetup ev r);
              second = (case first of
                          Some u \<Rightarrow> Some u
                        | None \<Rightarrow> (case page of
                                     None \<Rightarrow> None
                                   | Some r \<Rightarrow> if body r = [] then None else tarxz_link ev (body r)))
          in bind (case second of
                     Some u \<Rightarrow> return (Some u)
                   | None \<Rightarrow> head_candidates ev
                       [''https://telegram.org/dl/desktop/linux/tsetup.4.9.12.tar.xz'',
                        ''https://telegram.org/dl/desktop/linux/tsetup.4.9.11.tar.xz''])
               (\<lambda>found. case found of
                   Some u \<Rightarrow> return u
                 | None \<Rightarrow> bind (say ERROR ''Telegram archive link not found.'')
                             (\<lambda>_. raise (RuntimeError ''Telegram download link not found''))))"

definition unpack_telegram :: "env \<Rightarrow> path \<Rightarrow> unit comp list" where
  "unpack_telegram ev tg_local =
     [when_fs (\<lambda>t. path_exists t ''/opt/Telegram'')
        (\<lambda>w. (Inr (), w\<lparr>fs := remove_tree ''/opt/Telegram'' (fs w)\<rparr>)),
      safe_makedirs ''/opt/Telegram'',
      run_cmd ev [''tar'', ''-xf'', tg_local, ''-C'', ''/opt/Telegram'', ''--strip-components=1'']]"

definition startup2_install_telegram :: "env \<Rightarrow> path \<Rightarrow> unit comp" where
  "startup2_install_telegram ev downloads_dir =
     bind (say INFO ''Installing Telegram Desktop (saved into downloads folder)'')
       (\<lambda>_. bind (startup2_telegram_url ev)
          (\<lambda>tg_url. bind (download_with_retries ev tg_url (join downloads_dir (basename tg_url)) 3)
             (\<lambda>tg_local. steps
                (unpack_telegram ev tg_local @
                 [(\<lambda>w. if path_exists (fs w) ''/opt/Telegram/Telegram''
                        then steps
                               [try_except (popen ev [''/opt/Telegram/Telegram''])
                                  (\<lambda>e. say DEBUG
                                     ''Could not launch Telegram binary; installation may still be ok.''),
                                say INFO ''Telegram installed.''] w
                        else raise (FileNotFoundError
                               ''/opt/Telegram/Telegram not found after extraction'') w)]))))"

fun try_packages :: "env \<Rightarrow> string list \<Rightarrow> unit comp" where
  "try_packages ev [] w = (Inr (), w)"
| "try_packages ev (pkg # rest) w =
     (case run_cmd ev [''apt'', ''install'', ''-y'', pkg] w of
        (Inr _, w1) \<Rightarrow> (Inr (), w1)
      | (Inl e, w1) \<Rightarrow>
          try_packages ev rest (logger WARNING ''Could not install ProtonVPN package {pkg}: {e}'' w1))"

definition tray_dependencies :: "string list" where
  "tray_dependencies =
     [''apt'', ''install'', ''-y'', ''libayatana-appindicator3-1'',
      ''gir1.2-ayatanaappindicator3-0.1'', ''gnome-shell-extension-appindicator'']"

definition startup2_install_protonvpn :: "env \<Rightarrow> path \<Rightarrow> unit comp" where
  "startup2_install_protonvpn ev downloads_dir =
     (let target = join downloads_dir (basename PROTONVPN_DEB_URL)
      in steps
           [say INFO ''Installing ProtonVPN (repo package + app)'',
            bind (download_with_retries ev PROTONVPN_DEB_URL target 3) (\<lambda>_. return ()),
            verify_protonvpn ev target ''ProtonVPN checksum mismatch'',
            run_cmd ev [''dpkg'', ''-i'', target],
            run_cmd ev [''apt'', ''update''],
            try_packages ev [''proton-vpn-gnome-desktop'', ''protonvpn-gnome-desktop'', ''proton-vpn''],
            run_cmd ev tray_dependencies,
            try_except
              (bind (popen ev [''protonvpn-app''])
                 (\<lambda>_. say INFO ''ProtonVPN installed and attempted to launch.''))
              (\<lambda>e. say DEBUG ''ProtonVPN binary not found to launch right away.'')])"

definition startup2_install_rustscan :: "env \<Rightarrow> path \<Rightarrow> unit comp" where
  "startup2_install_rustscan ev downloads_dir =
     (let target = join downloads_dir (basename RUSTSCAN_DEB_URL)
      in steps
           [say INFO ''Installing RustScan (.deb)'',
            bind (download_with_retries ev RUSTSCAN_DEB_URL target 3) (\<lambda>_. return ()),
            run_cmd ev [''dpkg'', ''-i'', target],
            run_cmd ev [''apt-get'', ''install'', ''-f'', ''-y''],
            say INFO ''RustScan installed.''])"

definition startup2_install_vscode :: "env \<Rightarrow> path \<Rightarrow> unit comp" where
  "startup2_install_vscode ev downloads_dir =
     (let target = join downloads_dir ''code.deb''
      in steps
           [say INFO ''Installing VS Code (.deb)'',
            bind (download_with_retries ev VSCODE_DEB_URL target 3) (\<lambda>_. return ()),
            try_except (run_cmd ev [''dpkg'', ''-i'', target])
              (\<lambda>e. run_cmd ev [''apt-get'', ''install'', ''-f'', ''-y'']),
            try_except (popen ev [''code''])
              (\<lambda>e. say DEBUG ''Could not start VS Code now; it may require desktop session.''),
            say INFO ''VS Code install attempted.''])"

definition startup2_install_brave :: "env \<Rightarrow> path \<Rightarrow> unit comp" where
  "startup2_install_brave ev downloads_dir =
     (let installer_path = join downloads_dir ''brave-install.sh''
      in steps
           [say INFO ''Installing Brave (nightly) via installer script'',
            bind (download_with_retries ev BRAVE_INSTALLER_URL installer_path 3) (\<lambda>_. return ()),
            run_brave_installer ev installer_path])"

definition font_listed :: "env \<Rightarrow> string \<Rightarrow> bool comp" where
  "font_listed ev font_family =
     bind (subprocess_run ev [''fc-list'', '':family''])
       (\<lambda>p. return (contains (py_lower (stdout p)) (py_lower font_family)))"

definition ensure_font_available :: "env \<Rightarrow> string \<Rightarrow> string \<Rightarrow> bool comp" where
  "ensure_font_available ev font_family apt_package =
     bind (try_except (font_listed ev font_family)
             (\<lambda>e. case e of
                     FileNotFoundError _ \<Rightarrow>
                       bind (say DEBUG ''fc-list not available; will attempt apt install of font package.'')
                         (\<lambda>_. return False)
                   | _ \<Rightarrow> raise e))
       (\<lambda>found.
          if found then return True
          else bind (try_except
                       (steps [run_cmd ev [''apt-get'', ''update''],
                               run_cmd ev [''apt-get'', ''install'', ''-y'', apt_package]])
                       (\<lambda>e. say WARNING ''Could not install font package {apt_package}: {e}''))
                 (\<lambda>_. bind (try_except (font_listed ev font_family) (\<lambda>e. return False))
                    (\<lambda>found2.
                       if found2 then return True
                       else bind (say WARNING ''Font {font_family} not found after attempts.'')
                              (\<lambda>_. return False))))"

definition startup2_apply_gnome_tweaks :: "env \<Rightarrow> unit comp" where
  "startup2_apply_gnome_tweaks ev =
     steps
       [say INFO ''Applying GNOME tweaks and font settings'',
        bind (ensure_font_available ev DESIRED_FONT_FAMILY DESIRED_FONT_PACKAGE) (\<lambda>_. return ()),
        try_except
          (run_cmd ev [''gsettings'', ''set'', ''org.gnome.desktop.interface'', ''font-name'',
                       DESIRED_FONT_SETTING])
          (\<lambda>e. say WARNING ''Failed to set interface font: {e}''),
        try_except
          (steps [run_cmd ev [''gsettings'', ''set'', ''org.gnome.desktop.interface'',
                              ''text-scaling-factor'', ''0.95''],
                  run_cmd ev [''gsettings'', ''set'', ''org.gnome.desktop.background'',
                              ''picture-options'', ''zoom'']])
          (\<lambda>e. say WARNING ''Failed to set some gsettings: {e}''),
        try_except
          (steps [run_cmd ev [''gsettings'', ''get'', ''org.gnome.desktop.interface'', ''font-name''],
                  run_cmd ev [''gsettings'', ''get'', ''org.gnome.desktop.interface'',
                              ''text-scaling-factor''],
                  run_cmd ev [''gsettings'', ''get'', ''org.gnome.desktop.background'',
                              ''picture-options'']])
          (\<lambda>e. say DEBUG ''Could not read back gsettings values.'')]"

section \<open>The installers of startup.py\<close>

definition startup_telegram_url :: "env \<Rightarrow> url comp" where
  "startup_telegram_url ev =
     bind (try_except (urlopen ev ''GET'' TELEGRAM_DL_PAGE)
             (\<lambda>e. bind (say ERROR ''Failed to fetch Telegram download page or follow redirect'')
                     (\<lambda>_. raise e)))
       (\<lambda>r. case (case redirect_or_tsetup ev r of
                     Some u \<Rightarrow> Some u
                   | None \<Rightarrow> tarxz_link ev (body r)) of
               Some u \<Rightarrow> return u
             | None \<Rightarrow>
                 bind (say ERROR ''Could not locate a Telegram .tar.xz link by redirect or page parse.'')
                   (\<lambda>_. raise (RuntimeError ''Telegram download link not found'')))"

definition startup_install_telegram :: "env \<Rightarrow> path \<Rightarrow> unit comp" where
  "startup_install_telegram ev downloads_dir =
     bind (say INFO ''Installing Telegram Desktop (following redirects or parsing page)'')
       (\<lambda>_. bind (startup_telegram_url ev)
          (\<lambda>tg_url. steps
             ([try_except (urlretrieve ev tg_url (join downloads_dir (basename tg_url)))
                 (\<lambda>e. bind (say ERROR ''Failed to download Telegram archive from {tg_url}: {e}'')
                         (\<lambda>_. raise e))]
              @ unpack_telegram ev (join downloads_dir (basename tg_url))
              @ [(\<lambda>w. if path_exists (fs w) ''/opt/Telegram/Telegram''
                       then steps [popen ev [''/opt/Telegram/Telegram''],
                                   say INFO ''Telegram installed and launched.''] w
                       else raise (FileNotFoundError
                              ''Telegram binary not found after extraction at {tg_bin}'') w)])))"

text \<open>\<^verbatim>\<open>except FileNotFoundError\<close>: any other exception of the launch goes on.\<close>

definition unless_not_found :: "unit comp \<Rightarrow> unit comp \<Rightarrow> unit comp" where
  "unless_not_found m h =
     try_except m (\<lambda>e. case e of FileNotFoundError _ \<Rightarrow> h | _ \<Rightarrow> raise e)"

definition startup_install_protonvpn :: "env \<Rightarrow> path \<Rightarrow> unit comp" where
  "startup_install_protonvpn ev downloads_dir =
     (let target = join downloads_dir (basename PROTONVPN_DEB_URL)
      in steps
           [say INFO ''Installing ProtonVPN repository package (downloading .deb)'',
            urlretrieve ev PROTONVPN_DEB_URL target,
            verify_protonvpn ev target ''ProtonVPN .deb checksum does not match expected value'',
            run_cmd ev [''dpkg'', ''-i'', target],
            run_cmd ev [''apt'', ''update''],
            run_cmd ev [''apt'', ''install'', ''-y'', ''proton-vpn-gnome-desktop''],
            run_cmd ev tray_dependencies,
            unless_not_found
              (bind (popen ev [''protonvpn-app''])
                 (\<lambda>_. say INFO ''ProtonVPN installed and (attempted) launched.''))
              (say WARNING
                 ''ProtonVPN app binary not found to launch; installation likely succeeded.'')])"

text \<open>startup.py never assigns \<^verbatim>\<open>RUSTSCAN_DEB_URL\<close>: the first statement that reads it, the
  one that computes the target, raises \<^verbatim>\<open>NameError\<close>.\<close>

definition startup_install_rustscan :: "env \<Rightarrow> path \<Rightarrow> unit comp" where
  "startup_install_rustscan ev downloads_dir =
     steps [say INFO ''Installing RustScan (.deb)'',
            raise (NameError ''RUSTSCAN_DEB_URL'')]"

definition startup_install_vscode :: "env \<Rightarrow> path \<Rightarrow> unit comp" where
  "startup_install_vscode ev downloads_dir =
     (let target = join downloads_dir ''code.deb''
      in steps
           [say INFO ''Installing VS Code (.deb) using provided direct link'',
            try_except (urlretrieve ev VSCODE_DEB_URL target)
              (\<lambda>e. bind (say ERROR ''Failed to download VS Code: {e}'') (\<lambda>_. raise e)),
            try_except (run_cmd ev [''dpkg'', ''-i'', target])
              (\<lambda>e. case e of
                      CalledProcessError _ _ \<Rightarrow> run_cmd ev [''apt-get'', ''install'', ''-f'', ''-y'']
                    | _ \<Rightarrow> raise e),
            unless_not_found
              (bind (popen ev [''code'']) (\<lambda>_. say INFO ''VS Code launched in background.''))
              (say WARNING ''VS Code not found to launch; installation may still be successful.'')])"

definition startup_install_brave :: "env \<Rightarrow> path \<Rightarrow> unit comp" where
  "startup_install_brave ev downloads_dir =
     (let installer_path = join downloads_dir ''brave-install.sh''
      in steps
           [say INFO ''Installing Brave (nightly)'',
            urlretrieve ev BRAVE_INSTALLER_URL installer_path,
            run_brave_installer ev installer_path])"

definition startup_apply_gnome_tweaks :: "env \<Rightarrow> unit comp" where
  "startup_apply_gnome_tweaks ev =
     steps
       [say INFO ''Applying GNOME Tweaks via gsettings'',
        run_cmd ev [''gsettings'', ''set'', ''org.gnome.desktop.interface'', ''font-name'', ''Conifer 11''],
        run_cmd ev [''gsettings'', ''set'', ''org.gnome.desktop.interface'', ''text-scaling-factor'', ''0.95''],
        run_cmd ev [''gsettings'', ''set'', ''org.gnome.desktop.background'', ''picture-options'', ''zoom''],
        run_cmd ev [''gsettings'', ''get'', ''org.gnome.desktop.interface'', ''font-name''],
        run_cmd ev [''gsettings'', ''get'', ''org.gnome.desktop.interface'', ''text-scaling-factor''],
        run_cmd ev [''gsettings'', ''get'', ''org.gnome.desktop.background'', ''picture-options'']]"

section \<open>main of startup.py and startup2.py\<close>

text \<open>
  The two \<^verbatim>\<open>main\<close> functions have the same statements; they call the functions of their
  own file, which the record \<open>script\<close> holds. Everything after \<^verbatim>\<open>require_root\<close> is inside
  one \<^verbatim>\<open>try\<close> block whose handler logs the exception and ends the process with status 1.
  \<open>main\<close> returns the exit status of the process and the world it leaves.
\<close>

record script =
  apply_gnome_tweaks :: "env \<Rightarrow> unit comp"
  install_telegram :: "env \<Rightarrow> path \<Rightarrow> unit comp"
  install_protonvpn :: "env \<Rightarrow> path \<Rightarrow> unit comp"
  install_rustscan :: "env \<Rightarrow> path \<Rightarrow> unit comp"
  install_vscode :: "env \<Rightarrow> path \<Rightarrow> unit comp"
  install_brave :: "env \<Rightarrow> path \<Rightarrow> unit comp"

definition startup_py :: script where
  "startup_py =
     \<lparr>apply_gnome_tweaks = startup_apply_gnome_tweaks,
      install_telegram = startup_install_telegram,
      install_protonvpn = startup_install_protonvpn,
      install_rustscan = startup_install_rustscan,
      install_vscode = startup_install_vscode,
      install_brave = startup_install_brave\<rparr>"

definition startup2_py :: script where
  "startup2_py =
     \<lparr>apply_gnome_tweaks = startup2_apply_gnome_tweaks,
      install_telegram = startup2_install_telegram,
      install_protonvpn = startup2_install_protonvpn,
      install_rustscan = startup2_install_rustscan,
      install_vscode = startup2_install_vscode,
      install_brave = startup2_install_brave\<rparr>"

definition prerequisites :: "script \<Rightarrow> env \<Rightarrow> path comp" where
  "prerequisites S ev =
     bind (clone_repo ev REPO_URL REPO_DIRNAME)
       (\<lambda>_. bind (setup_downloads (abspath ev REPO_DIRNAME))
          (\<lambda>downloads_dir.
             bind (steps [backup_and_copy_grub ev (abspath ev REPO_DIRNAME),
                          backup_and_copy_wallpapers ev (abspath ev REPO_DIRNAME),
                          apply_gnome_tweaks S ev,
                          configure_dash_to_dock ev])
               (\<lambda>_. return downloads_dir)))"

definition packages :: "script \<Rightarrow> env \<Rightarrow> path \<Rightarrow> unit comp list" where
  "packages S ev downloads_dir =
     [install_telegram S ev downloads_dir,
      install_protonvpn S ev downloads_dir,
      install_rustscan S ev downloads_dir,
      install_vscode S ev downloads_dir,
      install_brave S ev downloads_dir]"

definition reboot_prompt :: "env \<Rightarrow> unit comp" where
  "reboot_prompt ev =
     (case answer ev of
        Inl e \<Rightarrow> raise e
      | Inr typed \<Rightarrow>
          if prefix ''y'' (py_lower (strip typed))
          then steps [say INFO ''Rebooting now...'', run_cmd ev [''reboot'']]
          else say INFO ''Reboot skipped; logout/login may be required for some settings.'')"

definition main_try :: "script \<Rightarrow> env \<Rightarrow> unit comp" where
  "main_try S ev =
     bind (prerequisites S ev)
       (\<lambda>downloads_dir.
          steps (packages S ev downloads_dir @
                 [cleanup_downloads downloads_dir,
                  reboot_prompt ev,
                  say INFO ''=== Installer finished successfully ==='']))"

text \<open>The handler of the \<^verbatim>\<open>try\<close> block: two log lines and \<^verbatim>\<open>sys.exit(1)\<close>; without an
  exception \<^verbatim>\<open>main\<close> returns and the process ends with status 0.\<close>

definition abort_log :: "world \<Rightarrow> world" where
  "abort_log w =
     logger ERROR ''Installation aborted due to errors. Check logs above.''
       (logger ERROR ''Fatal error during installation: {e}'' w)"

definition except_exit :: "(py_error + unit) \<times> world \<Rightarrow> int \<times> world" where
  "except_exit r = (case r of (Inr _, w1) \<Rightarrow> (0, w1) | (Inl e, w1) \<Rightarrow> (1, abort_log w1))"

definition main :: "script \<Rightarrow> env \<Rightarrow> world \<Rightarrow> int \<times> world" where
  "main S ev w =
     (let w0 = logger INFO ''=== Installer started ==='' w
      in if euid ev \<noteq> 0
         then (2, logger ERROR ''This script must be run as root (sudo). Exiting.'' w0)
         else except_exit (main_try S ev w0))"

section \<open>python.py\<close>

text \<open>\<^verbatim>\<open>backup_file\<close> moves to the name its caller fixes; \<^verbatim>\<open>copy_file\<close> copies a directory
  with \<^verbatim>\<open>copytree(dirs_exist_ok=True)\<close> and anything else with \<^verbatim>\<open>copy2\<close>.\<close>

definition backup_file :: "path \<Rightarrow> path \<Rightarrow> unit comp" where
  "backup_file src dest = when_fs (\<lambda>t. path_exists t src) (fs_op (shutil_move src dest))"

definition copy_file :: "path \<Rightarrow> path \<Rightarrow> unit comp" where
  "copy_file src dest w =
     (if isdir (fs w) src then fs_op (copytree src dest True) w
      else fs_op (shutil_copy src dest) w)"

definition setup_grub :: "unit comp" where
  "setup_grub =
     steps [ensure_dir ''/boot/grub/themes/backup'',
            ensure_dir ''/usr/share/grub/themes/backup'',
            when_fs (\<lambda>t. path_exists t ''/boot/grub/themes/kali'')
              (backup_file ''/boot/grub/themes/kali'' ''/boot/grub/themes/backup/kali.b''),
            copy_file ''kali'' ''/boot/grub/themes/'',
            when_fs (\<lambda>t. path_exists t ''/usr/share/grub/themes/kali'')
              (backup_file ''/usr/share/grub/themes/kali'' ''/usr/share/grub/themes/backup/kali.b''),
            copy_file ''/boot/grub/themes/kali'' ''/usr/share/grub/themes/'',
            backup_file ''/boot/grub/grub.cfg'' ''/boot/grub/grub.cfg.b'',
            copy_file ''grub.cfg'' ''/boot/grub/'']"

section \<open>startup3.py\<close>

definition wallpaper_map :: "(path \<times> path) list" where
  "wallpaper_map =
     [(''kali-maze-16x9.jpg'', ''12-wallpaper.png''),
      (''kali-tiles-16x9.jpg'', ''1-wallpaper.png''),
      (''kali-waves-16x9.png'', ''2-wallpaper.png''),
      (''kali-oleo-16x9.png'', ''3-wallpaper.png''),
      (''kali-tiles-purple-16x9.jpg'', ''4-wallpaper.png''),
      (''login.svg'', ''20-wallpaper.svg''),
      (''login-blurred'', ''2-wallpaper.png'')]"

definition startup3_wallpaper :: "path \<Rightarrow> path \<Rightarrow> path \<Rightarrow> int \<Rightarrow> path \<times> path \<Rightarrow> unit comp" where
  "startup3_wallpaper wallpaper_dir target_dir backup_dir timestamp entry =
     (case entry of (orig_file, new_file) \<Rightarrow>
        steps
          [when_fs (\<lambda>t. path_exists t (join target_dir orig_file))
             (fs_op (shutil_move (join target_dir orig_file)
                       (join backup_dir (orig_file @ ''.b.'' @ str_int timestamp)))),
           (\<lambda>w. if path_exists (fs w) (join wallpaper_dir new_file)
                 then fs_op (shutil_copy (join wallpaper_dir new_file) (join target_dir orig_file)) w
                 else say WARNING (''Source wallpaper '' @ join wallpaper_dir new_file @ '' not found'') w)])"

definition startup3_backup_and_copy_wallpapers :: "env \<Rightarrow> path \<Rightarrow> unit comp" where
  "startup3_backup_and_copy_wallpapers ev repo_path =
     bind (ensure_dir (join ''/usr/share/backgrounds/kali'' ''backup''))
       (\<lambda>_. bind (total (time_now ev))
          (\<lambda>timestamp.
             steps (map (startup3_wallpaper (join repo_path ''wallpaper'')
                           ''/usr/share/backgrounds/kali''
                           (join ''/usr/share/backgrounds/kali'' ''backup'') timestamp)
                      wallpaper_map)))"

section \<open>Concrete scenarios\<close>

text \<open>A server that answers every request with a three-byte body, commands that succeed and
  change nothing, processes that start; the scenarios below change one oracle at a time.\<close>

definition ok_response :: response where
  "ok_response = \<lparr>final_url = ''https://example.org/pkg.deb'', status = 200, body = [1, 2, 3]\<rparr>"

definition calm_env :: env where
  "calm_env =
     \<lparr>http = (\<lambda>k u. Inr ok_response),
      run = (\<lambda>k c t. Inr (\<lparr>returncode = 0, stdout = ''''\<rparr>, t)),
      spawn = (\<lambda>c. None),
      clock = (\<lambda>k. 1700000000),
      euid = 0,
      cwd = ''/root'',
      answer = Inr ''n'',
      sha256 = (\<lambda>b. if b = [1, 2, 3] then ''039058c6'' else ''e3b0c442''),
      tsetup_link = (\<lambda>b. None),
      tarxz_link = (\<lambda>b. None),
      free_bytes = 1048576\<rparr>"

text \<open>The first \<open>n\<close> requests time out, the later ones are answered.\<close>

definition flaky_env :: "nat \<Rightarrow> env" where
  "flaky_env n =
     calm_env\<lparr>http := (\<lambda>k u. if k < n then Inl (URLError ''timed out'') else Inr ok_response)\<rparr>"

definition start_world :: world where
  "start_world =
     \<lparr>fs = [(''/srv'', Dir), (''/srv/downloads'', Dir)], trace = [], logs = [], ticks = 0\<rparr>"

text \<open>A boot directory that holds grub.cfg and two backups of earlier runs.\<close>

definition grub_world :: world where
  "grub_world =
     \<lparr>fs = [(''/boot'', Dir), (''/boot/grub'', Dir), (''/boot/grub/grub.cfg'', File [7]),
            (''/boot/grub/grub.cfg.b'', File [8]),
            (''/boot/grub/grub.cfg.b.1700000000'', File [9])],
      trace = [], logs = [], ticks = 0\<rparr>"

text \<open>
  A session of startup2.py on a machine that holds the cloned repository under /root,
  an old grub.cfg and nothing else of what the script installs. Every request is
  answered with the same three bytes (the digest oracle calls them the expected ProtonVPN
  package), \<^verbatim>\<open>tar\<close> unpacks the Telegram binary, \<^verbatim>\<open>dpkg\<close> ends with the status \<open>rc\<close> on the
  RustScan package, and every other command succeeds.
\<close>

definition kali_box :: filesystem where
  "kali_box =
     [(''/root'', Dir), (''/root/startup'', Dir),
      (''/root/startup/grub.cfg'', File [103, 114, 117, 98]),
      (''/root/startup/kali'', Dir),
      (''/root/startup/kali/theme.txt'', File [116, 104, 101, 109, 101]),
      (''/root/startup/wallpaper'', Dir),
      (''/root/startup/wallpaper/20-wallpaper.svg'', File [20]),
      (''/root/startup/wallpaper/12-wallpaper.png'', File [12]),
      (''/root/startup/wallpaper/1-wallpaper.png'', File [1]),
      (''/root/startup/wallpaper/2-wallpaper.png'', File [2]),
      (''/root/startup/wallpaper/3-wallpaper.png'', File [3]),
      (''/root/startup/wallpaper/4-wallpaper.png'', File [4]),
      (''/boot'', Dir), (''/boot/grub'', Dir),
      (''/boot/grub/grub.cfg'', File [111, 108, 100])]"

definition archive_response :: response where
  "archive_response =
     \<lparr>final_url = ''https://td.telegram.org/tlinux/tsetup.6.1.3.tar.xz'', status = 200,
      body = [1, 2, 3]\<rparr>"

definition session_run ::
  "int \<Rightarrow> nat \<Rightarrow> string list \<Rightarrow> filesystem \<Rightarrow> py_error + proc \<times> filesystem" where
  "session_run rc k c t =
     (if c = [''dpkg'', ''-i'', ''/root/startup/downloads/rustscan_2.2.3_amd64.deb'']
      then Inr (\<lparr>returncode = rc, stdout = ''''\<rparr>, t)
      else if take 1 c = [''tar'']
      then Inr (\<lparr>returncode = 0, stdout = ''''\<rparr>,
                (''/opt/Telegram/Telegram'', File [127, 69, 76, 70]) # t)
      else Inr (\<lparr>returncode = 0, stdout = ''DejaVu Serif Condensed''\<rparr>, t))"

definition session_env :: "int \<Rightarrow> env" where
  "session_env rc =
     \<lparr>http = (\<lambda>k u. Inr archive_response),
      run = session_run rc,
      spawn = (\<lambda>c. None),
      clock = (\<lambda>k. 1700000000),
      euid = 0,
      cwd = ''/root'',
      answer = Inr ''n'',
      sha256 = (\<lambda>b. PROTONVPN_SHA256),
      tsetup_link = (\<lambda>b. None),
      tarxz_link = (\<lambda>b. None),
      free_bytes = 1048576\<rparr>"

definition session_world :: world where
  "session_world = \<lparr>fs = kali_box, trace = [], logs = [], ticks = 0\<rparr>"

text \<open>The file system, the commands and the log lines of that session when the resources
  are installed and the settings are made, and what the first three installers add.\<close>

definition installed_fs :: filesystem where
  "installed_fs =
     [(''/usr/share/backgrounds/kali/kali-tiles-purple-16x9.jpg'', File [4]),
      (''/usr/share/backgrounds/kali/kali-oleo-16x9.png'', File [3]),
      (''/usr/share/backgrounds/kali/kali-waves-16x9.png'', File [2]),
      (''/usr/share/backgrounds/kali/kali-tiles-16x9.jpg'', File [1]),
      (''/usr/share/backgrounds/kali/kali-maze-16x9.jpg'', File [12]),
      (''/usr/share/backgrounds/kali/login.svg'', File [20]),
      (''/usr/share/backgrounds/kali/backup'', Dir),
      (''/usr/share/backgrounds/kali'', Dir), (''/usr/share/backgrounds'', Dir),
      (''/usr/share/grub/themes/kali/theme.txt'', File [116, 104, 101, 109, 101]),
      (''/usr/share/grub/themes/kali'', Dir),
      (''/boot/grub/themes/kali/theme.txt'', File [116, 104, 101, 109, 101]),
      (''/boot/grub/themes/kali'', Dir),
      (''/usr/share/grub/themes/backup'', Dir),
      (''/usr/share/grub/themes'', Dir), (''/usr/share/grub'', Dir),
      (''/usr/share'', Dir), (''/usr'', Dir),
      (''/boot/grub/themes/backup'', Dir), (''/boot/grub/themes'', Dir),
      (''/boot/grub/grub.cfg'', File [103, 114, 117, 98]),
      (''/root/startup/downloads'', Dir), (''/root'', Dir),
      (''/root/startup'', Dir),
      (''/root/startup/grub.cfg'', File [103, 114, 117, 98]),
      (''/root/startup/kali'', Dir),
      (''/root/startup/kali/theme.txt'', File [116, 104, 101, 109, 101]),
      (''/root/startup/wallpaper'', Dir),
      (''/root/startup/wallpaper/20-wallpaper.svg'', File [20]),
      (''/root/startup/wallpaper/12-wallpaper.png'', File [12]),
      (''/root/startup/wallpaper/1-wallpaper.png'', File [1]),
      (''/root/startup/wallpaper/2-wallpaper.png'', File [2]),
      (''/root/startup/wallpaper/3-wallpaper.png'', File [3]),
      (''/root/startup/wallpaper/4-wallpaper.png'', File [4]), (''/boot'', Dir),
      (''/boot/grub'', Dir), (''/boot/grub/grub.cfg.b'', File [111, 108, 100])]"

definition tweak_trace :: "event list" where
  "tweak_trace =
     [Run [''git'', ''-C'', ''startup'', ''pull''],
      Run [''fc-list'', '':family''],
      Run [''gsettings'', ''set'', ''org.gnome.desktop.interface'', ''font-name'',
           ''DejaVu Serif Condensed 10''],
      Run [''gsettings'', ''set'', ''org.gnome.desktop.interface'', ''text-scaling-factor'', ''0.95''],
      Run [''gsettings'', ''set'', ''org.gnome.desktop.background'', ''picture-options'', ''zoom''],
      Run [''gsettings'', ''get'', ''org.gnome.desktop.interface'', ''font-name''],
      Run [''gsettings'', ''get'', ''org.gnome.desktop.interface'', ''text-scaling-factor''],
      Run [''gsettings'', ''get'', ''org.gnome.desktop.background'', ''picture-options'']]"

definition dash_trace :: "event list" where
  "dash_trace =
     [Run [''gsettings'', ''set'', ''org.gnome.shell.extensions.dash-to-dock'', ''dock-position'', ''LEFT''],
      Run [''gsettings'', ''set'', ''org.gnome.shell.extensions.dash-to-dock'', ''autohide'', ''true''],
      Run [''gsettings'', ''set'', ''org.gnome.shell.extensions.dash-to-dock'', ''animation-time'', ''0.0''],
      Run [''gsettings'', ''set'', ''org.gnome.shell.extensions.dash-to-dock'', ''hide-delay'', ''0.0''],
      Run [''gsettings'', ''set'', ''org.gnome.shell.extensions.dash-to-dock'', ''pressure-threshold'', ''0.0''],
      Run [''gsettings'', ''set'', ''org.gnome.shell.extensions.dash-to-dock'', ''dash-max-icon-size'', ''20''],
      Run [''gsettings'', ''get'', ''org.gnome.shell.extensions.dash-to-dock'', ''dock-position''],
      Run [''gsettings'', ''get'', ''org.gnome.shell.extensions.dash-to-dock'', ''autohide''],
      Run [''gsettings'', ''get'', ''org.gnome.shell.extensions.dash-to-dock'', ''animation-time''],
      Run [''gsettings'', ''get'', ''org.gnome.shell.extensions.dash-to-dock'', ''hide-delay''],
      Run [''gsettings'', ''get'', ''org.gnome.shell.extensions.dash-to-dock'', ''pressure-threshold''],
      Run [''gsettings'', ''get'', ''org.gnome.shell.extensions.dash-to-dock'', ''dash-max-icon-size'']]"

definition tweak_logs :: "(level \<times> string) list" where
  "tweak_logs =
     [(INFO, ''=== Installer started ===''),
      (INFO, ''Backing up and copying GRUB themes and grub.cfg''),
      (INFO, ''Backing up and copying wallpapers''),
      (INFO, ''Applying GNOME tweaks and font settings'')]"

definition tweaked_world :: world where
  "tweaked_world = \<lparr>fs = installed_fs, trace = tweak_trace, logs = tweak_logs, ticks = 0\<rparr>"

definition ready_world :: world where
  "ready_world =
     \<lparr>fs = installed_fs, trace = tweak_trace @ dash_trace,
      logs = tweak_logs @ [(INFO, ''Configuring Dash-to-Dock'')], ticks = 0\<rparr>"

definition two_packages_fs :: filesystem where
  "two_packages_fs =
     [(''/root/startup/downloads/protonvpn-stable-release_1.0.8_all.deb'', File [1, 2, 3]),
      (''/opt/Telegram/Telegram'', File [127, 69, 76, 70]),
      (''/opt/Telegram'', Dir), (''/opt'', Dir),
      (''/root/startup/downloads/tsetup.6.1.3.tar.xz'', File [1, 2, 3])] @ installed_fs"

definition two_packages_trace :: "event list" where
  "two_packages_trace =
     tweak_trace @ dash_trace @
     [Http ''GET'' ''https://telegram.org/dl/desktop/linux'',
      Http ''GET'' ''https://td.telegram.org/tlinux/tsetup.6.1.3.tar.xz'',
      Run [''tar'', ''-xf'', ''/root/startup/downloads/tsetup.6.1.3.tar.xz'', ''-C'',
           ''/opt/Telegram'', ''--strip-components=1''],
      Spawn [''/opt/Telegram/Telegram''],
      Http ''GET'' PROTONVPN_DEB_URL,
      Run [''dpkg'', ''-i'', ''/root/startup/downloads/protonvpn-stable-release_1.0.8_all.deb''],
      Run [''apt'', ''update''],
      Run [''apt'', ''install'', ''-y'', ''proton-vpn-gnome-desktop''],
      Run [''apt'', ''install'', ''-y'', ''libayatana-appindicator3-1'',
           ''gir1.2-ayatanaappindicator3-0.1'', ''gnome-shell-extension-appindicator''],
      Spawn [''protonvpn-app'']]"

definition two_packages_logs :: "(level \<times> string) list" where
  "two_packages_logs =
     tweak_logs @
     [(INFO, ''Configuring Dash-to-Dock''),
      (INFO, ''Installing Telegram Desktop (saved into downloads folder)''),
      (INFO, ''Telegram installed.''),
      (INFO, ''Installing ProtonVPN (repo package + app)''),
      (INFO, ''ProtonVPN installed and attempted to launch.'')]"

definition two_packages_world :: world where
  "two_packages_world =
     \<lparr>fs = two_packages_fs, trace = two_packages_trace, logs = two_packages_logs, ticks = 0\<rparr>"

definition rustscan_failed_world :: world where
  "rustscan_failed_world =
     \<lparr>fs = (''/root/startup/downloads/rustscan_2.2.3_amd64.deb'', File [1, 2, 3]) # two_packages_fs,
      trace = two_packages_trace @
        [Http ''GET'' RUSTSCAN_DEB_URL,
         Run [''dpkg'', ''-i'', ''/root/startup/downloads/rustscan_2.2.3_amd64.deb'']],
      logs = two_packages_logs @
        [(INFO, ''Installing RustScan (.deb)''), (ERROR, ''Command failed: {display}'')],
      ticks = 0\<rparr>"

text \<open>The world of that session, with a \<^verbatim>\<open>dpkg\<close> that accepts the RustScan package, after
  the five installers.\<close>

definition installed_world :: world where
  "installed_world =
     snd (steps (packages startup2_py (session_env 0) ''/root/startup/downloads'') ready_world)"

text \<open>The same machine, on which no binary can be executed: every \<^verbatim>\<open>Popen\<close> raises
  \<^verbatim>\<open>OSError\<close> (the Telegram binary is built for another architecture).\<close>

definition exec_format_env :: env where
  "exec_format_env =
     (session_env 0)\<lparr>spawn := (\<lambda>c. Some (OSError ''[Errno 8] Exec format error''))\<rparr>"

section \<open>Properties of the downloader\<close>

lemma net_attempts_emit [simp]:
  "net_attempts (emit e w) = (if is_Http e then Suc (net_attempts w) else net_attempts w)"
  by (simp add: net_attempts_def emit_def)

lemma net_attempts_logger [simp]: "net_attempts (logger l m w) = net_attempts w"
  by (simp add: net_attempts_def logger_def)

lemma net_attempts_fs [simp]: "net_attempts (w\<lparr>fs := t\<rparr>) = net_attempts w"
  by (simp add: net_attempts_def)

lemma sleeps_fs [simp]: "sleeps (w\<lparr>fs := t\<rparr>) = sleeps w"
  by (simp add: sleeps_def)

lemma fs_emit [simp]: "fs (emit e w) = fs w"
  by (simp add: emit_def)

lemma fs_logger [simp]: "fs (logger l m w) = fs w"
  by (simp add: logger_def)

lemma trace_emit [simp]: "trace (emit e w) = trace w @ [e]"
  by (simp add: emit_def)

lemma trace_logger [simp]: "trace (logger l m w) = trace w"
  by (simp add: logger_def)

lemma sleeps_emit [simp]:
  "sleeps (emit e w) = sleeps w @ (case e of Sleep d \<Rightarrow> [d] | _ \<Rightarrow> [])"
  by (simp add: sleeps_def emit_def)

lemma sleeps_logger [simp]: "sleeps (logger l m w) = sleeps w"
  by (simp add: sleeps_def logger_def)

text \<open>The world after a run of failed attempts: each one is a request, a warning and a
  sleep of one second more than the attempt's number.\<close>

fun failed_attempts :: "url \<Rightarrow> (py_error \<times> int) list \<Rightarrow> world \<Rightarrow> world" where
  "failed_attempts u [] w = w"
| "failed_attempts u ((e, a) # r) w =
     failed_attempts u r
       (emit (Sleep (1 + a)) (logger WARNING (warn_of e) (emit (Http ''GET'' u) w)))"

definition failures :: "(nat \<Rightarrow> py_error) \<Rightarrow> nat \<Rightarrow> (py_error \<times> int) list" where
  "failures e n = map (\<lambda>k. (e k, int k + 1)) [0..<n]"

lemma failed_attempts_trace:
  "trace (failed_attempts u eas w) =
     trace w @ concat (map (\<lambda>(e, a). [Http ''GET'' u, Sleep (1 + a)]) eas)"
  by (induction eas arbitrary: w) auto

lemma failed_attempts_fs [simp]: "fs (failed_attempts u eas w) = fs w"
  by (induction eas arbitrary: w) auto

lemma failed_attempts_net [simp]:
  "net_attempts (failed_attempts u eas w) = net_attempts w + length eas"
  by (induction eas arbitrary: w) auto

lemma failed_attempts_sleeps:
  "sleeps (failed_attempts u eas w) = sleeps w @ map (\<lambda>(e, a). 1 + a) eas"
  by (induction eas arbitrary: w) auto

lemma fetch_once_fail:
  "http ev (net_attempts w) u = Inl e \<Longrightarrow>
   fetch_once ev u target w = (Inl e, emit (Http ''GET'' u) w)"
  by (simp add: fetch_once_def bind_def urlopen_def)

lemma fetch_once_ok:
  "http ev (net_attempts w) u = Inr r \<Longrightarrow> save_body target (body r) (fs w) = Inr t \<Longrightarrow>
   fetch_once ev u target w = (Inr (), (emit (Http ''GET'' u) w)\<lparr>fs := t\<rparr>)"
  by (simp add: fetch_once_def bind_def urlopen_def fs_op_def)

lemma download_loop_failures:
  "\<forall>k < length eas. http ev (net_attempts w + k) u = Inl (fst (eas ! k)) \<Longrightarrow>
   download_loop ev u target (map snd eas @ rest) le w =
   download_loop ev u target rest (if eas = [] then le else Some (fst (last eas)))
     (failed_attempts u eas w)"
proof (induction eas arbitrary: w le)
  case Nil
  then show ?case by simp
next
  case (Cons x eas)
  obtain e a where x: "x = (e, a)" by (cases x)
  from Cons.prems have h0: "http ev (net_attempts w) u = Inl e"
    using x by (metis add.right_neutral fst_conv length_greater_0_conv list.distinct(1) nth_Cons_0)
  let ?w = "emit (Sleep (1 + a)) (logger WARNING (warn_of e) (emit (Http ''GET'' u) w))"
  have "\<forall>k < length eas. http ev (net_attempts ?w + k) u = Inl (fst (eas ! k))"
  proof (intro allI impI)
    fix k assume "k < length eas"
    then have "http ev (net_attempts w + Suc k) u = Inl (fst ((x # eas) ! Suc k))"
      using Cons.prems by (metis Suc_less_eq length_Cons)
    then show "http ev (net_attempts ?w + k) u = Inl (fst (eas ! k))" by simp
  qed
  from Cons.IH[OF this, of "Some e"] show ?case
    using h0 x by (simp add: fetch_once_fail)
qed

lemma range_upto: "map (\<lambda>k. int k + 1) [0..<n] = [1..int n]"
proof (induction n)
  case 0
  then show ?case by simp
next
  case (Suc n)
  have "[1..int (Suc n)] = [1..int n] @ [int n + 1]"
    using upto_rec2[of 1 "int n + 1"] by (simp add: add.commute)
  with Suc show ?case by simp
qed

lemma failures_snd: "map snd (failures e n) = [1..int n]"
  using range_upto[of n] by (simp add: failures_def comp_def)

lemma failures_len [simp]: "length (failures e n) = n"
  by (simp add: failures_def)

lemma failures_nth: "k < n \<Longrightarrow> fst (failures e n ! k) = e k"
  by (simp add: failures_def)

lemma failures_last: "0 < n \<Longrightarrow> fst (last (failures e n)) = e (n - 1)"
  by (cases n) (simp_all add: failures_def)

lemma download_all_fail:
  assumes "\<forall>k < n. http ev (net_attempts w + k) u = Inl (e k)"
  shows "download_loop ev u target [1..int n] None w =
         download_loop ev u target [] (if n = 0 then None else Some (e (n - 1)))
           (failed_attempts u (failures e n) w)"
proof -
  have "\<forall>k < length (failures e n).
          http ev (net_attempts w + k) u = Inl (fst (failures e n ! k))"
    using assms by (simp add: failures_nth)
  from download_loop_failures[OF this, of target "[]" None]
  have "download_loop ev u target [1..int n] None w =
        download_loop ev u target []
          (if failures e n = [] then None else Some (fst (last (failures e n))))
          (failed_attempts u (failures e n) w)"
    by (simp add: failures_snd)
  moreover have "(failures e n = []) = (n = 0)" by (simp add: failures_def)
  ultimately show ?thesis by (simp add: failures_last)
qed

lemma upto_split_at:
  "int N < retries \<Longrightarrow> [1..retries] = [1..int N] @ (int N + 1) # [int N + 2..retries]"
proof -
  assume a: "int N < retries"
  have "[1..retries] = [1..int N] @ [int N + 1..retries]"
    using upto_split1[of 1 "int N + 1" retries] a by simp
  moreover have "[int N + 1..retries] = (int N + 1) # [int N + 2..retries]"
    using upto_rec1[of "int N + 1" retries] a by (simp add: add.commute add.left_commute)
  ultimately show ?thesis by simp
qed

lemma upto_1_3: "[1..3::int] = [1, 2, 3]"
  by (simp add: upto.simps)

lemma download_after_failures:
  assumes budget: "int N < retries"
    and failing: "\<forall>k < N. http ev (net_attempts w + k) u = Inl (e k)"
    and answered: "http ev (net_attempts w + N) u = Inr r"
    and saved: "save_body target (body r) (fs w) = Inr t"
  shows "download_with_retries ev u target retries w =
           (Inr target, (emit (Http ''GET'' u) (failed_attempts u (failures e N) w))\<lparr>fs := t\<rparr>)"
proof -
  let ?w = "failed_attempts u (failures e N) w"
  have pre: "\<forall>k < length (failures e N).
               http ev (net_attempts w + k) u = Inl (fst (failures e N ! k))"
    using failing by (simp add: failures_nth)
  have "download_with_retries ev u target retries w =
        download_loop ev u target ([1..int N] @ (int N + 1) # [int N + 2..retries]) None w"
    using upto_split_at[OF budget] by (simp add: download_with_retries_def)
  also have "\<dots> = download_loop ev u target ((int N + 1) # [int N + 2..retries])
                    (if failures e N = [] then None else Some (fst (last (failures e N)))) ?w"
    using download_loop_failures[OF pre] by (simp add: failures_snd)
  also have "\<dots> = (Inr target, (emit (Http ''GET'' u) ?w)\<lparr>fs := t\<rparr>)"
    using fetch_once_ok[of ev ?w u r target t] answered saved by simp
  finally show ?thesis .
qed

lemma failures_trace:
  "trace (failed_attempts u (failures e N) w) =
     trace w @ concat (map (\<lambda>k. [Http ''GET'' u, Sleep (int k + 2)]) [0..<N])"
  by (simp add: failed_attempts_trace failures_def comp_def add.commute)

lemma fetch_once_net:
  "net_attempts (snd (fetch_once ev u target w)) = net_attempts w + 1"
  by (auto simp: fetch_once_def bind_def urlopen_def fs_op_def net_attempts_def emit_def
      split: sum.splits)

lemma download_loop_bound:
  "net_attempts (snd (download_loop ev u target xs le w)) \<le> net_attempts w + length xs"
proof (induction xs arbitrary: le w)
  case Nil
  then show ?case by (simp add: Let_def split: option.splits)
next
  case (Cons attempt rest)
  obtain r w1 where f: "fetch_once ev u target w = (r, w1)" by (cases "fetch_once ev u target w")
  with fetch_once_net[of ev u target w] have n: "net_attempts w1 = net_attempts w + 1" by simp
  show ?case
  proof (cases r)
    case (Inr x)
    with f n show ?thesis by simp
  next
    case (Inl e)
    have "net_attempts (snd (download_loop ev u target rest (Some e)
             (emit (Sleep (1 + attempt)) (logger WARNING (warn_of e) w1))))
          \<le> net_attempts (emit (Sleep (1 + attempt)) (logger WARNING (warn_of e) w1)) + length rest"
      by (rule Cons.IH)
    with Inl f n show ?thesis by simp
  qed
qed

lemma download_bound:
  "net_attempts (snd (download_with_retries ev u target retries w)) \<le> net_attempts w + nat retries"
  using download_loop_bound[of ev u target "[1..retries]" None w]
  by (simp add: download_with_retries_def)

section \<open>Properties of the hashing\<close>

lemma file_read_chunk:
  "0 < n \<Longrightarrow> n \<le> memory \<Longrightarrow> n \<le> PY_SSIZE_T_MAX - 33 \<Longrightarrow>
   file_read memory n rest = Inr (take (nat n) rest)"
  by (simp add: file_read_def PY_SSIZE_T_MAX_def)

lemma hash_chunks_update:
  "\<forall>h a b. update H (update H h a) b = update H h (a @ b) \<Longrightarrow>
   \<forall>h. update H h [] = h \<Longrightarrow> 0 < n \<Longrightarrow> n \<le> memory \<Longrightarrow> n \<le> PY_SSIZE_T_MAX - 33 \<Longrightarrow>
   hash_chunks H memory n rest h = Inr (update H h rest)"
proof (induction H memory n rest h rule: hash_chunks.induct)
  case (1 H memory chunk_size rest h)
  let ?chunk = "take (nat chunk_size) rest"
  have chunk: "file_read memory chunk_size rest = Inr ?chunk"
    using 1(4,5,6) by (rule file_read_chunk)
  show ?case
  proof (cases "?chunk = []")
    case True
    with 1(4) have "rest = []" by simp
    then show ?thesis
      using 1(3) True chunk by (subst hash_chunks.simps) simp
  next
    case False
    have "hash_chunks H memory chunk_size rest h =
          hash_chunks H memory chunk_size (drop (length ?chunk) rest) (update H h ?chunk)"
      using False chunk by (subst hash_chunks.simps) simp
    also have "\<dots> = Inr (update H (update H h ?chunk) (drop (length ?chunk) rest))"
      using "1.IH"[OF chunk False 1(2) 1(3) 1(4) 1(5) 1(6)] .
    also have "update H (update H h ?chunk) (drop (length ?chunk) rest) =
               update H h (?chunk @ drop (length ?chunk) rest)"
      using 1(2) by simp
    also have "?chunk @ drop (length ?chunk) rest = rest"
      by (simp add: min_def)
    finally show ?thesis .
  qed
qed

lemma hash_chunks_refused:
  "file_read memory n rest = Inl e \<Longrightarrow> hash_chunks H memory n rest h = Inl e"
  by (subst hash_chunks.simps) simp

lemma hashlib_sha256_laws:
  "\<forall>h a b. update (hashlib_sha256 ev) (update (hashlib_sha256 ev) h a) b =
             update (hashlib_sha256 ev) h (a @ b)"
  "\<forall>h. update (hashlib_sha256 ev) h [] = h"
  by (simp_all add: hashlib_sha256_def)

lemma open_rb_file:
  "lookup t p = Some (File content) \<Longrightarrow> last p \<noteq> CHR ''/'' \<Longrightarrow> open_rb t p = Inr content"
  by (simp add: open_rb_def)

lemma sha256_of_file_installer:
  "lookup t p = Some (File content) \<Longrightarrow> last p \<noteq> CHR ''/'' \<Longrightarrow>
   sha256_of_file (hashlib_sha256 ev) (allocatable ev) t p 8192 = Inr (sha256 ev content)"
  using hash_chunks_update[OF hashlib_sha256_laws, of 8192 "allocatable ev" ev content "[]"]
  by (simp add: sha256_of_file_def open_rb_file hashlib_sha256_def allocatable_def
      PY_SSIZE_T_MAX_def)

lemma protonvpn_target_plain:
  "last (join downloads_dir (basename PROTONVPN_DEB_URL)) \<noteq> CHR ''/''"
  by (simp add: join_def basename_def PROTONVPN_DEB_URL_def)

section \<open>Properties of install\_protonvpn\<close>

lemma write_file_lookup: "write_file p b t = Inr t' \<Longrightarrow> lookup t' p = Some (File b)"
  by (auto simp: write_file_def lookup_def split: if_splits)

lemma save_body_lookup: "save_body p b t = Inr t' \<Longrightarrow> lookup t' p = Some (File b)"
  by (auto simp: save_body_def write_file_lookup split: sum.splits)

lemma verify_protonvpn_mismatch:
  "lookup (fs w) target = Some (File content) \<Longrightarrow> last target \<noteq> CHR ''/'' \<Longrightarrow>
   sha256 ev content \<noteq> PROTONVPN_SHA256 \<Longrightarrow>
   verify_protonvpn ev target msg w =
     (Inl (RuntimeError msg), logger ERROR ''ProtonVPN .deb SHA256 mismatch. Aborting.'' w)"
  by (simp add: verify_protonvpn_def sha256_of_file_installer)

lemma startup_protonvpn_mismatch:
  assumes mismatch: "sha256 ev (body r) \<noteq> PROTONVPN_SHA256"
    and answered: "http ev (net_attempts w) PROTONVPN_DEB_URL = Inr r"
    and written: "write_file (join downloads_dir (basename PROTONVPN_DEB_URL)) (body r) (fs w) = Inr t"
  shows "startup_install_protonvpn ev downloads_dir w =
      (Inl (RuntimeError ''ProtonVPN .deb checksum does not match expected value''),
       logger ERROR ''ProtonVPN .deb SHA256 mismatch. Aborting.''
         ((emit (Http ''GET'' PROTONVPN_DEB_URL)
            (logger INFO ''Installing ProtonVPN repository package (downloading .deb)'' w))\<lparr>fs := t\<rparr>))"
proof -
  let ?target = "join downloads_dir (basename PROTONVPN_DEB_URL)"
  let ?w0 = "logger INFO ''Installing ProtonVPN repository package (downloading .deb)'' w"
  let ?w1 = "(emit (Http ''GET'' PROTONVPN_DEB_URL) ?w0)\<lparr>fs := t\<rparr>"
  have dl: "urlretrieve ev PROTONVPN_DEB_URL ?target ?w0 = (Inr (), ?w1)"
    using answered written by (simp add: urlretrieve_def bind_def urlopen_def fs_op_def)
  have "lookup (fs ?w1) ?target = Some (File (body r))"
    using write_file_lookup[OF written] by simp
  from verify_protonvpn_mismatch[OF this protonvpn_target_plain mismatch] dl
  show ?thesis by (simp add: startup_install_protonvpn_def Let_def say_def)
qed

lemma startup2_protonvpn_mismatch:
  assumes mismatch: "sha256 ev (body r) \<noteq> PROTONVPN_SHA256"
    and budget: "N < 3"
    and failing: "\<forall>k < N. http ev (net_attempts w + k) PROTONVPN_DEB_URL = Inl (e k)"
    and answered: "http ev (net_attempts w + N) PROTONVPN_DEB_URL = Inr r"
    and saved: "save_body (join downloads_dir (basename PROTONVPN_DEB_URL)) (body r) (fs w) = Inr t"
  shows "startup2_install_protonvpn ev downloads_dir w =
      (Inl (RuntimeError ''ProtonVPN checksum mismatch''),
       logger ERROR ''ProtonVPN .deb SHA256 mismatch. Aborting.''
         ((emit (Http ''GET'' PROTONVPN_DEB_URL)
            (failed_attempts PROTONVPN_DEB_URL (failures e N)
               (logger INFO ''Installing ProtonVPN (repo package + app)'' w)))\<lparr>fs := t\<rparr>))"
proof -
  let ?target = "join downloads_dir (basename PROTONVPN_DEB_URL)"
  let ?w0 = "logger INFO ''Installing ProtonVPN (repo package + app)'' w"
  let ?w1 = "(emit (Http ''GET'' PROTONVPN_DEB_URL)
               (failed_attempts PROTONVPN_DEB_URL (failures e N) ?w0))\<lparr>fs := t\<rparr>"
  have b: "int N < 3" using budget by simp
  have f: "\<forall>k < N. http ev (net_attempts ?w0 + k) PROTONVPN_DEB_URL = Inl (e k)"
    using failing by simp
  have r: "http ev (net_attempts ?w0 + N) PROTONVPN_DEB_URL = Inr r" using answered by simp
  have s: "save_body ?target (body r) (fs ?w0) = Inr t" using saved by simp
  have dl: "download_with_retries ev PROTONVPN_DEB_URL ?target 3 ?w0 = (Inr ?target, ?w1)"
    by (rule download_after_failures[OF b f r s])
  have "lookup (fs ?w1) ?target = Some (File (body r))"
    using save_body_lookup[OF saved] by simp
  from verify_protonvpn_mismatch[OF this protonvpn_target_plain mismatch] dl
  show ?thesis
    by (simp add: startup2_install_protonvpn_def Let_def say_def bind_def return_def)
qed

lemma protonvpn_target:
  "join ''/srv/downloads'' (basename PROTONVPN_DEB_URL) =
     ''/srv/downloads/protonvpn-stable-release_1.0.8_all.deb''"
  by (simp add: join_def basename_def PROTONVPN_DEB_URL_def)

lemma write_start:
  "write_file ''/srv/downloads/protonvpn-stable-release_1.0.8_all.deb'' [1, 2, 3] (fs start_world) =
     Inr ((''/srv/downloads/protonvpn-stable-release_1.0.8_all.deb'', File [1, 2, 3]) # fs start_world)"
  by (simp add: write_file_def isdir_def lookup_def normpath_def dirname_def start_world_def Let_def)

lemma save_start:
  "save_body ''/srv/downloads/protonvpn-stable-release_1.0.8_all.deb'' [1, 2, 3] (fs start_world) =
     Inr ((''/srv/downloads/protonvpn-stable-release_1.0.8_all.deb'', File [1, 2, 3]) # fs start_world)"
  by (simp add: save_body_def makedirs_def path_prefixes_def write_file_def isdir_def lookup_def
      normpath_def dirname_def start_world_def Let_def)

lemma digest_differs: "sha256 calm_env (body ok_response) \<noteq> PROTONVPN_SHA256"
  by (simp add: calm_env_def ok_response_def PROTONVPN_SHA256_def)

lemma start_world_fresh: "net_attempts start_world = 0" "trace start_world = []"
  by (simp_all add: net_attempts_def start_world_def)

section \<open>Properties of the backups\<close>

lemma unique_loop_free: "\<not> path_exists t (unique_loop t stem counter candidate)"
proof (induction t stem counter candidate rule: unique_loop.induct)
  case (1 t stem counter candidate)
  then show ?case by (subst unique_loop.simps) simp
qed

lemma make_unique_path_free: "\<not> path_exists (fs w) (fst (make_unique_path ev path_base w))"
  by (simp add: make_unique_path_def time_now_def unique_loop_free Let_def)

lemma make_unique_path_fs [simp]: "fs (snd (make_unique_path ev path_base w)) = fs w"
  by (simp add: make_unique_path_def time_now_def Let_def)

lemma unique_loop_prefix:
  "prefix stem candidate \<Longrightarrow> prefix stem (unique_loop t stem counter candidate)"
proof (induction t stem counter candidate rule: unique_loop.induct)
  case (1 t stem counter candidate)
  then show ?case by (subst unique_loop.simps) simp
qed

lemma make_unique_path_prefix: "prefix path_base (fst (make_unique_path ev path_base w))"
proof -
  have "prefix path_base (unique_loop (fs w) (path_base @ ''.'' @ s) 0 (path_base @ ''.'' @ s))" for s
    using unique_loop_prefix[of "path_base @ ''.'' @ s" "path_base @ ''.'' @ s" "fs w" 0]
    by (meson prefix_order.dual_order.trans prefix_order.order_refl prefixI)
  then show ?thesis by (simp add: make_unique_path_def time_now_def Let_def)
qed

lemma rebase_self: "rebase src dst src = dst"
  by (simp add: rebase_def)

lemma rebase_is_dst: "under src p \<Longrightarrow> rebase src dst p = dst \<Longrightarrow> p = src"
  by (auto simp: under_def inside_def rebase_def prefix_def)

lemma rename_tree_dst:
  "map_of t src = Some n \<Longrightarrow> map_of (rename_tree src dst t) dst = Some n"
proof (induction t)
  case Nil
  then show ?case by simp
next
  case (Cons x t)
  obtain p m where x: "x = (p, m)" by (cases x)
  show ?case
  proof (cases "p = src")
    case True
    with Cons.prems x show ?thesis by (simp add: rename_tree_def under_def rebase_self)
  next
    case False
    with Cons.prems x have "map_of t src = Some n" by simp
    from Cons.IH[OF this] have ih: "map_of (rename_tree src dst t) dst = Some n" .
    show ?thesis
    proof (cases "under src p")
      case True
      with False have "rebase src dst p \<noteq> dst" using rebase_is_dst by blast
      with True ih x show ?thesis by (simp add: rename_tree_def)
    next
      case nu: False
      show ?thesis
      proof (cases "under dst p")
        case True
        with nu ih x show ?thesis by (simp add: rename_tree_def)
      next
        case False
        then have "p \<noteq> dst" by (simp add: under_def)
        with nu False ih x show ?thesis by (simp add: rename_tree_def)
      qed
    qed
  qed
qed

lemma mk_each_keeps: "mk_each qs t = Inr t' \<Longrightarrow> map_of t k = Some n \<Longrightarrow> map_of t' k = Some n"
proof (induction qs arbitrary: t)
  case Nil
  then show ?case by simp
next
  case (Cons q qs)
  show ?case
  proof (cases "map_of t q")
    case None
    with Cons.prems have "mk_each qs ((q, Dir) # t) = Inr t'" by simp
    moreover from None Cons.prems have "map_of ((q, Dir) # t) k = Some n" by auto
    ultimately show ?thesis by (rule Cons.IH)
  next
    case (Some a)
    with Cons.prems show ?thesis by (cases a) (auto intro: Cons.IH)
  qed
qed

lemma makedirs_keeps: "makedirs p t = Inr t' \<Longrightarrow> map_of t k = Some n \<Longrightarrow> map_of t' k = Some n"
  unfolding makedirs_def by (rule mk_each_keeps)

lemma normpath_idem [simp]: "normpath (normpath p) = normpath p"
proof (cases "rev (dropWhile (\<lambda>c. c = CHR ''/'') (rev p)) = []")
  case True
  then show ?thesis by (cases "p = []") (simp_all add: normpath_def)
next
  case False
  let ?s = "rev (dropWhile (\<lambda>c. c = CHR ''/'') (rev p))"
  from False have ne: "dropWhile (\<lambda>c. c = CHR ''/'') (rev p) \<noteq> []" by simp
  from hd_dropWhile[OF ne] have "last ?s \<noteq> CHR ''/''"
    using ne by (simp add: last_rev)
  from normpath_id[OF False this] have stable: "normpath ?s = ?s" .
  have "normpath p = ?s" using False by (auto simp: normpath_def Let_def)
  with stable show ?thesis by simp
qed

lemma lookup_normpath [simp]: "lookup t (normpath p) = lookup t p"
  by (simp add: lookup_def)

lemma path_exists_normpath [simp]: "path_exists t (normpath p) = path_exists t p"
  by (simp add: path_exists_def)

lemma isdir_normpath [simp]: "isdir t (normpath p) = isdir t p"
  by (simp add: isdir_def)

lemma isdir_exists: "isdir t p \<Longrightarrow> path_exists t p"
  by (simp add: isdir_def path_exists_def)

lemma shutil_move_creates:
  assumes moved: "shutil_move src dst t = Inr t'"
    and free: "\<not> path_exists t dst"
  shows "path_exists t' dst"
proof -
  let ?s = "normpath src" and ?d = "normpath dst"
  from free have notdir: "\<not> isdir t dst" using isdir_exists by blast
  have ne: "?s \<noteq> ?d"
  proof
    assume "?s = ?d"
    with moved free show False
      by (simp add: shutil_move_def Let_def path_exists_def lookup_def split: if_splits)
  qed
  show ?thesis
  proof (cases "lookup t src")
    case None
    with moved ne notdir show ?thesis by (simp add: shutil_move_def Let_def)
  next
    case (Some n)
    then have src: "map_of t ?s = Some n" by (simp add: lookup_def)
    show ?thesis
    proof (cases n)
      case (File b)
      with moved ne notdir Some have "t' = rename_tree ?s ?d t"
        by (simp add: shutil_move_def Let_def split: if_splits)
      with rename_tree_dst[OF src] show ?thesis by (simp add: path_exists_def lookup_def)
    next
      case Dir
      with moved ne notdir Some free obtain t1 where
        t1: "(if dirname ?d = [] then Inr t else makedirs (dirname ?d) t) = Inr t1"
        and t': "t' = rename_tree ?s ?d t1"
        by (auto simp: shutil_move_def Let_def split: if_splits sum.splits)
      from t1 src have "map_of t1 ?s = Some n"
        by (auto split: if_splits intro: makedirs_keeps)
      with rename_tree_dst t' show ?thesis by (simp add: path_exists_def lookup_def)
    qed
  qed
qed

lemma backup_to_creates:
  assumes "backup_to ev target path_base w = (Inr u, w1)"
  shows "path_exists (fs w1) (fst (make_unique_path ev path_base w))"
proof -
  obtain dest w0 where m: "make_unique_path ev path_base w = (dest, w0)"
    by (cases "make_unique_path ev path_base w")
  then have f: "fs w0 = fs w" using make_unique_path_fs[of ev path_base w] by simp
  from assms m obtain t' where mv: "shutil_move target dest (fs w0) = Inr t'" and w1: "w1 = w0\<lparr>fs := t'\<rparr>"
    by (auto simp: backup_to_def bind_def total_def fs_op_def split: sum.splits)
  have "\<not> path_exists (fs w0) dest"
    using make_unique_path_free[of w ev path_base] m f by simp
  from shutil_move_creates[OF mv this] w1 m show ?thesis by simp
qed

lemma str_1700000000: "str_int 1700000000 = ''1700000000''"
  by (simp add: str_int_def str_nat.simps digit_char_def)

lemma str_nat_1: "str_nat (Suc 0) = ''1''"
  by (simp add: str_nat.simps digit_char_def)

lemma grub_unique:
  "make_unique_path calm_env ''/boot/grub/grub.cfg.b'' grub_world =
     (''/boot/grub/grub.cfg.b.1700000000.1'', grub_world\<lparr>ticks := 1\<rparr>)"
  by (simp add: make_unique_path_def time_now_def calm_env_def grub_world_def str_1700000000
      path_exists_def lookup_def normpath_def unique_loop.simps str_nat_1 Let_def)

lemma grub_backup:
  "fst (backup_to calm_env ''/boot/grub/grub.cfg'' ''/boot/grub/grub.cfg.b'' grub_world) = Inr ()"
  unfolding backup_to_def bind_def total_def grub_unique
  by (simp add: fs_op_def shutil_move_def Let_def
      normpath_def isdir_def lookup_def path_exists_def dirname_def grub_world_def)

lemma backup_bases_apart:
  "list_all (\<lambda>a. list_all (\<lambda>b. a = b \<or> \<not> prefix a b) backup_bases) backup_bases"
  by code_simp

lemma backup_bases_distinct: "distinct backup_bases"
  by code_simp

lemma backup_bases_length: "length backup_bases = 10"
  by (simp add: backup_bases_def WALLPAPER_FILES_TO_BACKUP_def)

lemma make_unique_path_apart:
  assumes "\<not> prefix a b" and "\<not> prefix b a"
  shows "fst (make_unique_path ev a wa) \<noteq> fst (make_unique_path ev' b wb)"
proof
  assume eq: "fst (make_unique_path ev a wa) = fst (make_unique_path ev' b wb)"
  have "prefix a (fst (make_unique_path ev a wa))" by (rule make_unique_path_prefix)
  moreover have "prefix b (fst (make_unique_path ev a wa))"
    unfolding eq by (rule make_unique_path_prefix)
  ultimately have "prefix a b \<or> prefix b a" by (rule prefix_same_cases)
  with assms show False by simp
qed

lemma backup_bases_give_distinct_paths:
  assumes "i < length backup_bases" and "j < length backup_bases" and "i \<noteq> j"
  shows "fst (make_unique_path ev (backup_bases ! i) wa) \<noteq>
         fst (make_unique_path ev' (backup_bases ! j) wb)"
proof -
  let ?a = "backup_bases ! i" and ?b = "backup_bases ! j"
  have ne: "?a \<noteq> ?b"
    using assms backup_bases_distinct by (simp add: nth_eq_iff_index_eq)
  have mem: "?a \<in> set backup_bases" "?b \<in> set backup_bases"
    using assms by simp_all
  from backup_bases_apart have all:
    "\<forall>a\<in>set backup_bases. \<forall>b\<in>set backup_bases. a = b \<or> \<not> prefix a b"
    by (simp add: list_all_iff)
  from all mem ne have "\<not> prefix ?a ?b" by blast
  moreover from all mem ne have "\<not> prefix ?b ?a" by metis
  ultimately have "\<not> prefix ?a ?b" "\<not> prefix ?b ?a" by simp_all
  then show ?thesis by (rule make_unique_path_apart)
qed

lemma backup_steps_bases:
  "grub_cfg_steps ev repo_path ! 0 =
     when_fs (\<lambda>t. path_exists t ''/boot/grub/grub.cfg'')
       (backup_to ev ''/boot/grub/grub.cfg'' (backup_bases ! 0))"
  "boot_theme_steps ev repo_path ! 0 =
     when_fs (\<lambda>t. isdir t ''/boot/grub/themes/kali'')
       (backup_to ev ''/boot/grub/themes/kali'' (backup_bases ! 1))"
  "usr_theme_steps ev ! 0 =
     when_fs (\<lambda>t. isdir t ''/usr/share/grub/themes/kali'')
       (backup_to ev ''/usr/share/grub/themes/kali'' (backup_bases ! 2))"
  by (simp_all add: grub_cfg_steps_def boot_theme_steps_def usr_theme_steps_def backup_bases_def)

lemma backup_wallpaper_base:
  "k < length WALLPAPER_FILES_TO_BACKUP \<Longrightarrow>
   backup_wallpaper ev ''/usr/share/backgrounds/kali'' (join ''/usr/share/backgrounds/kali'' ''backup'')
       (WALLPAPER_FILES_TO_BACKUP ! k) =
     when_fs (\<lambda>t. path_exists t (join ''/usr/share/backgrounds/kali'' (WALLPAPER_FILES_TO_BACKUP ! k)))
       (bind (total (make_unique_path ev (backup_bases ! (3 + k))))
          (\<lambda>dest. steps [safe_makedirs (dirname dest),
                          fs_op (shutil_move (join ''/usr/share/backgrounds/kali''
                                   (WALLPAPER_FILES_TO_BACKUP ! k)) dest)]))"
  by (simp add: backup_wallpaper_def backup_bases_def nth_append)

section \<open>Properties of main\<close>

lemma steps_append:
  "steps (xs @ ys) w =
     (case steps xs w of (Inl e, w1) \<Rightarrow> (Inl e, w1) | (Inr _, w1) \<Rightarrow> steps ys w1)"
  by (induction xs arbitrary: w) (auto split: prod.splits sum.splits)

lemma steps_fail_at:
  "k < length ms \<Longrightarrow> steps (take k ms) w = (Inr u, w2) \<Longrightarrow> (ms ! k) w2 = (Inl e, w3) \<Longrightarrow>
   steps (ms @ rest) w = (Inl e, w3)"
proof -
  assume k: "k < length ms" and before: "steps (take k ms) w = (Inr u, w2)"
    and failed: "(ms ! k) w2 = (Inl e, w3)"
  have "ms = take k ms @ (ms ! k) # drop (Suc k) ms"
    using k by (simp add: Cons_nth_drop_Suc)
  then have "ms @ rest = take k ms @ (ms ! k) # (drop (Suc k) ms @ rest)"
    by (metis append.assoc append_Cons)
  then have "steps (ms @ rest) w = steps (take k ms @ (ms ! k) # (drop (Suc k) ms @ rest)) w"
    by (rule arg_cong)
  also have "\<dots> = (Inl e, w3)"
    using before failed by (simp only: steps_append) simp
  finally show ?thesis .
qed

lemma main_aborts_at:
  assumes root: "euid ev = 0"
    and ready: "prerequisites S ev (logger INFO ''=== Installer started ==='' w) = (Inr downloads_dir, w1)"
    and k: "k < 5"
    and before: "steps (take k (packages S ev downloads_dir)) w1 = (Inr u, w2)"
    and failed: "(packages S ev downloads_dir ! k) w2 = (Inl e, w3)"
  shows "main S ev w = (1, abort_log w3)"
proof -
  have len: "k < length (packages S ev downloads_dir)" using k by (simp add: packages_def)
  have "main_try S ev (logger INFO ''=== Installer started ==='' w) = (Inl e, w3)"
    using ready steps_fail_at[OF len before failed] by (simp add: main_try_def bind_def)
  then show ?thesis using root by (simp add: main_def Let_def except_exit_def)
qed

lemma main_all_installed:
  assumes root: "euid ev = 0"
    and ready: "prerequisites S ev (logger INFO ''=== Installer started ==='' w) = (Inr downloads_dir, w1)"
    and finished: "steps (packages S ev downloads_dir) w1 = (Inr u, w2)"
  shows "main S ev w =
           except_exit (steps [cleanup_downloads downloads_dir, reboot_prompt ev,
                               say INFO ''=== Installer finished successfully ===''] w2)"
proof -
  have "main_try S ev (logger INFO ''=== Installer started ==='' w) =
          steps [cleanup_downloads downloads_dir, reboot_prompt ev,
                 say INFO ''=== Installer finished successfully ===''] w2"
    using ready finished by (simp only: main_try_def bind_def steps_append) simp
  then show ?thesis using root by (simp add: main_def Let_def)
qed

lemma stage_files:
  "bind (clone_repo (session_env rc) REPO_URL REPO_DIRNAME)
     (\<lambda>_. bind (setup_downloads (abspath (session_env rc) REPO_DIRNAME))
        (\<lambda>d. bind (steps [backup_and_copy_grub (session_env rc) (abspath (session_env rc) REPO_DIRNAME),
                           backup_and_copy_wallpapers (session_env rc) (abspath (session_env rc) REPO_DIRNAME),
                           apply_gnome_tweaks startup2_py (session_env rc)])
                (\<lambda>_. return d)))
     (logger INFO ''=== Installer started ==='' session_world)
   = (Inr ''/root/startup/downloads'', tweaked_world)"
  by code_simp

lemma stage_dash: "configure_dash_to_dock (session_env rc) tweaked_world = (Inr (), ready_world)"
  by (simp add: configure_dash_to_dock_def dash_to_dock_settings_def say_def run_cmd_def
      run_cmd_output_def run_cmd_check_def subprocess_run_def bind_def return_def session_env_def
      session_run_def commands_run_def emit_def logger_def tweaked_world_def ready_world_def
      tweak_trace_def dash_trace_def tweak_logs_def Let_def)

lemma stage_two:
  "steps (take 2 (packages startup2_py (session_env rc) ''/root/startup/downloads'')) ready_world
     = (Inr (), two_packages_world)"
  by code_simp

lemma stage_rustscan:
  "(packages startup2_py (session_env 1) ''/root/startup/downloads'' ! 2) two_packages_world
     = (Inl (CalledProcessError [''dpkg'', ''-i'', ''/root/startup/downloads/rustscan_2.2.3_amd64.deb''] 1),
        rustscan_failed_world)"
  by code_simp

lemma steps_snoc:
  "steps ms w = (Inr u, w1) \<Longrightarrow> steps (ms @ [m]) w = m w1"
  by (cases "m w1" rule: prod.exhaust) (auto simp: steps_append split: sum.splits)

lemma session_ready:
  "prerequisites startup2_py (session_env rc) (logger INFO ''=== Installer started ==='' session_world)
     = (Inr ''/root/startup/downloads'', ready_world)"
proof -
  let ?w = "logger INFO ''=== Installer started ==='' session_world"
  let ?three = "[backup_and_copy_grub (session_env rc) (abspath (session_env rc) REPO_DIRNAME),
                 backup_and_copy_wallpapers (session_env rc) (abspath (session_env rc) REPO_DIRNAME),
                 apply_gnome_tweaks startup2_py (session_env rc)]"
  from stage_files[of rc] obtain wc d wd where
    c: "clone_repo (session_env rc) REPO_URL REPO_DIRNAME ?w = (Inr (), wc)"
    and s: "setup_downloads (abspath (session_env rc) REPO_DIRNAME) wc = (Inr d, wd)"
    and t: "steps ?three wd = (Inr (), tweaked_world)"
    and d: "d = ''/root/startup/downloads''"
    by (auto simp: bind_def return_def simp del: steps.simps split: prod.splits sum.splits)
  have "steps (?three @ [configure_dash_to_dock (session_env rc)]) wd = (Inr (), ready_world)"
    using steps_snoc[OF t] stage_dash by simp
  then show ?thesis
    using c s d by (simp add: prerequisites_def bind_def return_def)
qed

lemma session_outcome:
  "main startup2_py (session_env 1) session_world = (1, abort_log rustscan_failed_world)"
proof -
  have root: "euid (session_env 1) = 0" by (simp add: session_env_def)
  have two: "(2::nat) < 5" by simp
  show ?thesis
    by (rule main_aborts_at[OF root session_ready two stage_two stage_rustscan])
qed

lemma stage_rest:
  "fst (steps (drop 2 (packages startup2_py (session_env 0) ''/root/startup/downloads''))
          two_packages_world) = Inr ()"
  by code_simp

lemma stage_split:
  "steps (packages startup2_py (session_env 0) ''/root/startup/downloads'') ready_world =
   steps (drop 2 (packages startup2_py (session_env 0) ''/root/startup/downloads''))
     two_packages_world"
proof -
  let ?p = "packages startup2_py (session_env 0) ''/root/startup/downloads''"
  have "steps (take 2 ?p @ drop 2 ?p) ready_world = steps (drop 2 ?p) two_packages_world"
    using stage_two[of 0] by (simp only: steps_append) simp
  then show ?thesis by simp
qed

lemma stage_all:
  "steps (packages startup2_py (session_env 0) ''/root/startup/downloads'') ready_world =
     (Inr (), installed_world)"
  using stage_rest by (simp add: stage_split installed_world_def prod_eq_iff)

lemma clean_end:
  "fst (except_exit
          (steps [cleanup_downloads ''/root/startup/downloads'', reboot_prompt (session_env 0),
                  say INFO ''=== Installer finished successfully ===''] installed_world)) = 0"
  "listdir (fs (snd (except_exit
          (steps [cleanup_downloads ''/root/startup/downloads'', reboot_prompt (session_env 0),
                  say INFO ''=== Installer finished successfully ===''] installed_world))))
     ''/root/startup/downloads'' = []"
  "(INFO, ''Cleaning up downloads folder'') \<in> set (logs (snd (except_exit
          (steps [cleanup_downloads ''/root/startup/downloads'', reboot_prompt (session_env 0),
                  say INFO ''=== Installer finished successfully ===''] installed_world))))"
  unfolding installed_world_def stage_split by code_simp+

lemma abort_log_fs: "fs (abort_log w) = fs w"
  by (simp add: abort_log_def logger_def)

lemma session_root: "euid (session_env rc) = 0"
  by (simp add: session_env_def)

lemma vscode_would_install:
  "fst (startup2_install_vscode (session_env 1) ''/root/startup/downloads'' rustscan_failed_world)
     = Inr ()"
  by code_simp

section \<open>Properties of the launches\<close>

lemma launch_guarded: "fst (try_except (popen ev c) (\<lambda>e. say l msg) w) = Inr ()"
  by (simp add: try_except_def popen_def say_def split: option.splits)

lemma startup2_vscode_launch_never_fatal:
  assumes "steps [say INFO ''Installing VS Code (.deb)'',
                  bind (download_with_retries ev VSCODE_DEB_URL (join downloads_dir ''code.deb'') 3)
                    (\<lambda>_. return ()),
                  try_except (run_cmd ev [''dpkg'', ''-i'', join downloads_dir ''code.deb''])
                    (\<lambda>e. run_cmd ev [''apt-get'', ''install'', ''-f'', ''-y''])] w = (Inr u, w1)"
  shows "fst (startup2_install_vscode ev downloads_dir w) = Inr ()"
proof -
  let ?launch = "try_except (popen ev [''code''])
      (\<lambda>e. say DEBUG ''Could not start VS Code now; it may require desktop session.'')"
  let ?three = "[say INFO ''Installing VS Code (.deb)'',
                  bind (download_with_retries ev VSCODE_DEB_URL (join downloads_dir ''code.deb'') 3)
                    (\<lambda>_. return ()),
                  try_except (run_cmd ev [''dpkg'', ''-i'', join downloads_dir ''code.deb''])
                    (\<lambda>e. run_cmd ev [''apt-get'', ''install'', ''-f'', ''-y''])]"
  have "startup2_install_vscode ev downloads_dir w =
          steps (?three @ [?launch, say INFO ''VS Code install attempted.'']) w"
    by (simp add: startup2_install_vscode_def Let_def)
  also have "\<dots> = steps [?launch, say INFO ''VS Code install attempted.''] w1"
    using assms by (simp only: steps_append) simp
  finally have "startup2_install_vscode ev downloads_dir w =
      steps [?launch, say INFO ''VS Code install attempted.''] w1" .
  moreover obtain w2 where "?launch w1 = (Inr (), w2)"
    using launch_guarded[of ev "[''code'']" DEBUG _ w1] by (metis prod.collapse)
  ultimately show ?thesis by (simp add: say_def)
qed

section \<open>The claims\<close>

text \<open>
  C5, as the code has it. \<^verbatim>\<open>download_with_retries\<close> loops over \<^verbatim>\<open>range(1, retries + 1)\<close>,
  so \<open>retries\<close> is the number of attempts, the first one included. When the first \<open>N\<close>
  requests fail, \<open>N\<close> is less than \<open>retries\<close>, and the next request is answered with a
  body that can be written to the target, the download succeeds after exactly \<open>N + 1\<close>
  requests; consecutive requests are separated by one sleep each, of \<open>2, 3, \<dots>, N + 1\<close>
  seconds, so the delays increase with the attempt; and the target holds the body. Whatever
  the network answers and whatever \<open>retries\<close> is, a call makes at most \<open>retries\<close> requests
  (none when \<open>retries \<le> 0\<close>): at most \<open>retries - 1\<close> retries follow the first attempt.
\<close>

theorem download_succeeds_after_failures:
  "(int N < retries \<and>
    (\<forall>k < N. http ev (net_attempts w + k) u = Inl (e k)) \<and>
    http ev (net_attempts w + N) u = Inr r \<and>
    save_body target (body r) (fs w) = Inr t \<longrightarrow>
      fst (download_with_retries ev u target retries w) = Inr target \<and>
      net_attempts (snd (download_with_retries ev u target retries w)) = net_attempts w + N + 1 \<and>
      trace (snd (download_with_retries ev u target retries w)) =
        trace w @ concat (map (\<lambda>k. [Http ''GET'' u, Sleep (int k + 2)]) [0..<N]) @ [Http ''GET'' u] \<and>
      sleeps (snd (download_with_retries ev u target retries w)) =
        sleeps w @ map (\<lambda>k. int k + 2) [0..<N] \<and>
      sorted (map (\<lambda>k. int k + 2) [0..<N]) \<and>
      fs (snd (download_with_retries ev u target retries w)) = t) \<and>
   net_attempts (snd (download_with_retries ev u target retries w)) \<le> net_attempts w + nat retries"
proof (intro conjI impI)
  assume h: "int N < retries \<and>
    (\<forall>k < N. http ev (net_attempts w + k) u = Inl (e k)) \<and>
    http ev (net_attempts w + N) u = Inr r \<and>
    save_body target (body r) (fs w) = Inr t"
  then have budget: "int N < retries"
    and failing: "\<forall>k < N. http ev (net_attempts w + k) u = Inl (e k)"
    and answered: "http ev (net_attempts w + N) u = Inr r"
    and saved: "save_body target (body r) (fs w) = Inr t"
    by simp_all
  let ?w = "failed_attempts u (failures e N) w"
  have res: "download_with_retries ev u target retries w =
     (Inr target, (emit (Http ''GET'' u) ?w)\<lparr>fs := t\<rparr>)"
    by (rule download_after_failures[OF budget failing answered saved])
  have tr: "trace ((emit (Http ''GET'' u) ?w)\<lparr>fs := t\<rparr>) =
     trace w @ concat (map (\<lambda>k. [Http ''GET'' u, Sleep (int k + 2)]) [0..<N]) @ [Http ''GET'' u]"
    by (simp add: emit_def failed_attempts_trace failures_def comp_def add.commute)
  have sl: "sleeps ((emit (Http ''GET'' u) ?w)\<lparr>fs := t\<rparr>) =
     sleeps w @ map (\<lambda>k. int k + 2) [0..<N]"
    using failed_attempts_sleeps[of u "failures e N" w]
    by (simp add: sleeps_def emit_def failures_def comp_def add.commute)
  have na: "net_attempts ((emit (Http ''GET'' u) ?w)\<lparr>fs := t\<rparr>) = net_attempts w + N + 1"
    using failed_attempts_net[of u "failures e N" w] by (simp add: net_attempts_def emit_def)
  show "fst (download_with_retries ev u target retries w) = Inr target"
    by (simp add: res)
  show "net_attempts (snd (download_with_retries ev u target retries w)) = net_attempts w + N + 1"
    using na by (simp add: res)
  show "trace (snd (download_with_retries ev u target retries w)) =
        trace w @ concat (map (\<lambda>k. [Http ''GET'' u, Sleep (int k + 2)]) [0..<N]) @ [Http ''GET'' u]"
    using tr by (simp add: res)
  show "sleeps (snd (download_with_retries ev u target retries w)) =
        sleeps w @ map (\<lambda>k. int k + 2) [0..<N]"
    using sl by (simp add: res)
  show "sorted (map (\<lambda>k. int k + 2) [0..<N])"
    by (simp add: sorted_map sorted_wrt_iff_nth_less)
  show "fs (snd (download_with_retries ev u target retries w)) = t"
    by (simp add: res)
next
  show "net_attempts (snd (download_with_retries ev u target retries w)) \<le> net_attempts w + nat retries"
    by (rule download_bound)
qed

lemma save_body_start:
  "save_body ''/srv/downloads/pkg.deb'' [1, 2, 3] (fs start_world) =
     Inr ((''/srv/downloads/pkg.deb'', File [1, 2, 3]) # fs start_world)"
  by (simp add: save_body_def start_world_def makedirs_def path_prefixes_def dirname_def
      normpath_def write_file_def isdir_def lookup_def Let_def)

theorem download_succeeds_after_failures_witness:
  "fst (download_with_retries (flaky_env 2) ''https://example.org/pkg.deb''
          ''/srv/downloads/pkg.deb'' 3 start_world) = Inr ''/srv/downloads/pkg.deb'' \<and>
   net_attempts (snd (download_with_retries (flaky_env 2) ''https://example.org/pkg.deb''
          ''/srv/downloads/pkg.deb'' 3 start_world)) = 3 \<and>
   sleeps (snd (download_with_retries (flaky_env 2) ''https://example.org/pkg.deb''
          ''/srv/downloads/pkg.deb'' 3 start_world)) = [2, 3] \<and>
   lookup (fs (snd (download_with_retries (flaky_env 2) ''https://example.org/pkg.deb''
          ''/srv/downloads/pkg.deb'' 3 start_world))) ''/srv/downloads/pkg.deb''
     = Some (File [1, 2, 3])"
proof -
  have b: "int 2 < 3" by simp
  have f: "\<forall>k < 2. http (flaky_env 2) (net_attempts start_world + k)
             ''https://example.org/pkg.deb'' = Inl (URLError ''timed out'')"
    by (simp add: flaky_env_def net_attempts_def start_world_def)
  have a: "http (flaky_env 2) (net_attempts start_world + 2) ''https://example.org/pkg.deb''
             = Inr ok_response"
    by (simp add: flaky_env_def net_attempts_def start_world_def)
  have s: "save_body ''/srv/downloads/pkg.deb'' (body ok_response) (fs start_world) =
      Inr ((''/srv/downloads/pkg.deb'', File [1, 2, 3]) # fs start_world)"
    using save_body_start by (simp add: ok_response_def)
  have n: "net_attempts start_world = 0" "sleeps start_world = []"
    by (simp_all add: net_attempts_def sleeps_def start_world_def)
  have u: "[0..<2] = [0, Suc 0]" by (simp add: upt_rec)
  show ?thesis
    using download_succeeds_after_failures[of 2 3 "flaky_env 2" start_world
        "''https://example.org/pkg.deb''" "\<lambda>k. URLError ''timed out''" ok_response
        "''/srv/downloads/pkg.deb''"
        "(''/srv/downloads/pkg.deb'', File [1, 2, 3]) # fs start_world"] b f a s n
    by (simp add: u lookup_def normpath_def)
qed

text \<open>
  C5 as the claim states it fails at \<open>N = retries = 3\<close>: three requests time out, the
  fourth would be answered, and \<open>N\<close> does not exceed the budget; the download raises the
  last time-out after three requests and never makes the fourth.
\<close>

theorem download_budget_counterexample:
  "http (flaky_env 3) 0 ''https://example.org/pkg.deb'' = Inl (URLError ''timed out'') \<and>
   http (flaky_env 3) 1 ''https://example.org/pkg.deb'' = Inl (URLError ''timed out'') \<and>
   http (flaky_env 3) 2 ''https://example.org/pkg.deb'' = Inl (URLError ''timed out'') \<and>
   http (flaky_env 3) 3 ''https://example.org/pkg.deb'' = Inr ok_response \<and>
   fst (download_with_retries (flaky_env 3) ''https://example.org/pkg.deb''
          ''/srv/downloads/pkg.deb'' 3 start_world) = Inl (URLError ''timed out'') \<and>
   net_attempts (snd (download_with_retries (flaky_env 3) ''https://example.org/pkg.deb''
          ''/srv/downloads/pkg.deb'' 3 start_world)) = 3"
  by (simp add: download_with_retries_def upto_1_3 flaky_env_def calm_env_def fetch_once_def
      bind_def urlopen_def start_world_def net_attempts_def emit_def logger_def Let_def)

text \<open>
  C9. With \<open>retries \<le> 0\<close> the loop body never runs: no request is made, nothing is
  slept, and the final \<^verbatim>\<open>raise last_err\<close> reads a variable that was never assigned, which
  is an \<^verbatim>\<open>UnboundLocalError\<close> and not a transport error. With \<open>retries \<ge> 1\<close> and every
  request failing, the function makes \<open>retries\<close> requests and raises the error of the
  last one.
\<close>

theorem download_without_attempts_is_unbound:
  "(retries \<le> 0 \<longrightarrow>
      fst (download_with_retries ev u target retries w) = Inl (UnboundLocalError ''last_err'') \<and>
      trace (snd (download_with_retries ev u target retries w)) = trace w \<and>
      net_attempts (snd (download_with_retries ev u target retries w)) = net_attempts w) \<and>
   (1 \<le> retries \<and> (\<forall>k < nat retries. http ev (net_attempts w + k) u = Inl (e k)) \<longrightarrow>
      fst (download_with_retries ev u target retries w) = Inl (e (nat retries - 1)) \<and>
      net_attempts (snd (download_with_retries ev u target retries w)) =
        net_attempts w + nat retries)"
proof (intro conjI impI)
  assume "retries \<le> 0"
  then have "[1..retries] = []" by simp
  then show "fst (download_with_retries ev u target retries w) = Inl (UnboundLocalError ''last_err'')"
    and "trace (snd (download_with_retries ev u target retries w)) = trace w"
    and "net_attempts (snd (download_with_retries ev u target retries w)) = net_attempts w"
    by (simp_all add: download_with_retries_def Let_def)
next
  assume h: "1 \<le> retries \<and> (\<forall>k < nat retries. http ev (net_attempts w + k) u = Inl (e k))"
  then have r: "int (nat retries) = retries" and p: "0 < nat retries" by simp_all
  from h have "\<forall>k < nat retries. http ev (net_attempts w + k) u = Inl (e k)" by simp
  from download_all_fail[OF this, of target] r p
  have eq: "download_with_retries ev u target retries w =
        download_loop ev u target [] (Some (e (nat retries - 1)))
          (failed_attempts u (failures e (nat retries)) w)"
    by (simp add: download_with_retries_def)
  show "fst (download_with_retries ev u target retries w) = Inl (e (nat retries - 1))"
    by (simp add: eq Let_def)
  show "net_attempts (snd (download_with_retries ev u target retries w)) =
          net_attempts w + nat retries"
    by (simp add: eq Let_def)
qed

theorem download_without_attempts_is_unbound_witness:
  "fst (download_with_retries (flaky_env 3) ''https://example.org/pkg.deb''
          ''/srv/downloads/pkg.deb'' 0 start_world) = Inl (UnboundLocalError ''last_err'') \<and>
   net_attempts (snd (download_with_retries (flaky_env 3) ''https://example.org/pkg.deb''
          ''/srv/downloads/pkg.deb'' 0 start_world)) = 0 \<and>
   fst (download_with_retries (flaky_env 3) ''https://example.org/pkg.deb''
          ''/srv/downloads/pkg.deb'' 2 start_world) = Inl (URLError ''timed out'') \<and>
   net_attempts (snd (download_with_retries (flaky_env 3) ''https://example.org/pkg.deb''
          ''/srv/downloads/pkg.deb'' 2 start_world)) = 2"
proof -
  have n: "net_attempts start_world = 0"
    by (simp add: net_attempts_def start_world_def)
  have f: "\<forall>k < nat 2. http (flaky_env 3) (net_attempts start_world + k)
             ''https://example.org/pkg.deb'' = Inl (URLError ''timed out'')"
    by (simp add: flaky_env_def n)
  show ?thesis
    using download_without_attempts_is_unbound[of 0 "flaky_env 3" "''https://example.org/pkg.deb''"
        "''/srv/downloads/pkg.deb''" start_world "\<lambda>k. URLError ''timed out''"]
      download_without_attempts_is_unbound[of 2 "flaky_env 3" "''https://example.org/pkg.deb''"
        "''/srv/downloads/pkg.deb''" start_world "\<lambda>k. URLError ''timed out''"] f n
    by simp
qed

text \<open>
  C10, as the code has it. Take a hash object on which two \<^verbatim>\<open>update\<close> calls in a row are
  the \<^verbatim>\<open>update\<close> with the concatenation and the \<^verbatim>\<open>update\<close> with no bytes changes nothing
  (what \<^verbatim>\<open>hashlib\<close> promises of its objects), and a path that names a regular file. When the
  path does not end with a separator, \<^verbatim>\<open>sha256_of_file\<close> returns the digest of the file's
  whole content hashed in one step for every positive chunk size that \<^verbatim>\<open>f.read\<close> can
  allocate: at most \<open>memory\<close> and at most \<open>PY_SSIZE_T_MAX - 33\<close>. For every larger chunk size
  the first \<^verbatim>\<open>f.read\<close> raises, an \<^verbatim>\<open>OverflowError\<close> beyond \<open>PY_SSIZE_T_MAX - 33\<close> and a
  \<^verbatim>\<open>MemoryError\<close> beyond \<open>memory\<close>, and no digest is returned. When the path ends with a
  separator, \<^verbatim>\<open>open\<close> raises \<^verbatim>\<open>NotADirectoryError\<close> whatever the chunk size.
\<close>

theorem sha256_of_file_streams_whole_digest:
  assumes cat: "\<forall>h a b. update H (update H h a) b = update H h (a @ b)"
    and nil: "\<forall>h. update H h [] = h"
    and found: "lookup t p = Some (File content)"
  shows "(last p \<noteq> CHR ''/'' \<and> 0 < chunk_size \<and> chunk_size \<le> memory \<and>
            chunk_size \<le> PY_SSIZE_T_MAX - 33 \<longrightarrow>
            sha256_of_file H memory t p chunk_size = Inr (sha256_whole H content)) \<and>
         (last p \<noteq> CHR ''/'' \<and> PY_SSIZE_T_MAX < chunk_size \<longrightarrow>
            sha256_of_file H memory t p chunk_size =
              Inl (OverflowError ''cannot fit int into an index-sized integer'')) \<and>
         (last p \<noteq> CHR ''/'' \<and> PY_SSIZE_T_MAX - 33 < chunk_size \<and> chunk_size \<le> PY_SSIZE_T_MAX \<longrightarrow>
            sha256_of_file H memory t p chunk_size = Inl (OverflowError ''byte string is too large'')) \<and>
         (last p \<noteq> CHR ''/'' \<and> 0 < chunk_size \<and> memory < chunk_size \<and>
            chunk_size \<le> PY_SSIZE_T_MAX - 33 \<longrightarrow>
            sha256_of_file H memory t p chunk_size = Inl MemoryError) \<and>
         (p \<noteq> [] \<and> last p = CHR ''/'' \<longrightarrow>
            sha256_of_file H memory t p chunk_size = Inl (NotADirectoryError p))"
proof (intro conjI impI)
  assume a: "last p \<noteq> CHR ''/'' \<and> 0 < chunk_size \<and> chunk_size \<le> memory \<and>
             chunk_size \<le> PY_SSIZE_T_MAX - 33"
  then have "hash_chunks H memory chunk_size content (new H) = Inr (update H (new H) content)"
    using hash_chunks_update[OF cat nil, of chunk_size memory content "new H"] by simp
  with a found show "sha256_of_file H memory t p chunk_size = Inr (sha256_whole H content)"
    by (simp add: sha256_of_file_def open_rb_file sha256_whole_def)
next
  assume a: "last p \<noteq> CHR ''/'' \<and> PY_SSIZE_T_MAX < chunk_size"
  then have "file_read memory chunk_size content =
               Inl (OverflowError ''cannot fit int into an index-sized integer'')"
    by (simp add: file_read_def)
  from hash_chunks_refused[OF this, of H "new H"] a found
  show "sha256_of_file H memory t p chunk_size =
          Inl (OverflowError ''cannot fit int into an index-sized integer'')"
    by (simp add: sha256_of_file_def open_rb_file)
next
  assume a: "last p \<noteq> CHR ''/'' \<and> PY_SSIZE_T_MAX - 33 < chunk_size \<and> chunk_size \<le> PY_SSIZE_T_MAX"
  then have "file_read memory chunk_size content = Inl (OverflowError ''byte string is too large'')"
    by (simp add: file_read_def PY_SSIZE_T_MAX_def)
  from hash_chunks_refused[OF this, of H "new H"] a found
  show "sha256_of_file H memory t p chunk_size = Inl (OverflowError ''byte string is too large'')"
    by (simp add: sha256_of_file_def open_rb_file)
next
  assume a: "last p \<noteq> CHR ''/'' \<and> 0 < chunk_size \<and> memory < chunk_size \<and>
             chunk_size \<le> PY_SSIZE_T_MAX - 33"
  then have "file_read memory chunk_size content = Inl MemoryError"
    by (simp add: file_read_def PY_SSIZE_T_MAX_def)
  from hash_chunks_refused[OF this, of H "new H"] a found
  show "sha256_of_file H memory t p chunk_size = Inl MemoryError"
    by (simp add: sha256_of_file_def open_rb_file)
next
  assume "p \<noteq> [] \<and> last p = CHR ''/''"
  with found show "sha256_of_file H memory t p chunk_size = Inl (NotADirectoryError p)"
    by (simp add: sha256_of_file_def open_rb_def)
qed

theorem sha256_of_file_streams_whole_digest_witness:
  "sha256_of_file (hashlib_sha256 calm_env) (allocatable calm_env)
      [(''/srv/downloads/pkg.deb'', File [1, 2, 3])] ''/srv/downloads/pkg.deb'' 2 = Inr ''039058c6'' \<and>
   sha256_whole (hashlib_sha256 calm_env) [1, 2, 3] = ''039058c6'' \<and>
   sha256_of_file (hashlib_sha256 calm_env) (allocatable calm_env)
      [(''/srv/downloads/pkg.deb'', File [1, 2, 3])] ''/srv/downloads/pkg.deb'' (2 ^ 40) = Inl MemoryError \<and>
   sha256_of_file (hashlib_sha256 calm_env) (allocatable calm_env)
      [(''/srv/downloads/pkg.deb'', File [1, 2, 3])] ''/srv/downloads/pkg.deb'' (2 ^ 63 - 1)
     = Inl (OverflowError ''byte string is too large'') \<and>
   sha256_of_file (hashlib_sha256 calm_env) (allocatable calm_env)
      [(''/srv/downloads/pkg.deb'', File [1, 2, 3])] ''/srv/downloads/pkg.deb/'' 2
     = Inl (NotADirectoryError ''/srv/downloads/pkg.deb/'')"
proof -
  have f: "lookup [(''/srv/downloads/pkg.deb'', File [1, 2, 3])] ''/srv/downloads/pkg.deb''
             = Some (File [1, 2, 3])"
    by (simp add: lookup_def normpath_def)
  have g: "lookup [(''/srv/downloads/pkg.deb'', File [1, 2, 3])] ''/srv/downloads/pkg.deb/''
             = Some (File [1, 2, 3])"
    by (simp add: lookup_def normpath_def)
  have w: "sha256_whole (hashlib_sha256 calm_env) [1, 2, 3] = ''039058c6''"
    by (simp add: sha256_whole_def hashlib_sha256_def calm_env_def)
  have m: "allocatable calm_env = 1048576"
    by (simp add: allocatable_def calm_env_def)
  note laws = hashlib_sha256_laws[of calm_env]
  show ?thesis
    using sha256_of_file_streams_whole_digest[OF laws f,
        where chunk_size = 2 and memory = "allocatable calm_env"]
      sha256_of_file_streams_whole_digest[OF laws f,
        where chunk_size = "2 ^ 40" and memory = "allocatable calm_env"]
      sha256_of_file_streams_whole_digest[OF laws f,
        where chunk_size = "2 ^ 63 - 1" and memory = "allocatable calm_env"]
      sha256_of_file_streams_whole_digest[OF laws g,
        where chunk_size = 2 and memory = "allocatable calm_env"]
      w m
    by (simp add: PY_SSIZE_T_MAX_def)
qed

text \<open>
  C10 as the claim states it fails at the positive chunk size \<open>2 ^ 63\<close>: the file is there
  and its whole content has a digest, but \<^verbatim>\<open>f.read(2 ** 63)\<close> raises an \<^verbatim>\<open>OverflowError\<close>
  before a byte is hashed, and \<^verbatim>\<open>sha256_of_file\<close> returns no digest.
\<close>

theorem chunk_size_overflow_counterexample:
  "lookup [(''/srv/downloads/pkg.deb'', File [1, 2, 3])] ''/srv/downloads/pkg.deb''
     = Some (File [1, 2, 3]) \<and>
   (0::int) < 2 ^ 63 \<and>
   sha256_whole (hashlib_sha256 calm_env) [1, 2, 3] = ''039058c6'' \<and>
   sha256_of_file (hashlib_sha256 calm_env) (allocatable calm_env)
      [(''/srv/downloads/pkg.deb'', File [1, 2, 3])] ''/srv/downloads/pkg.deb'' (2 ^ 63)
     = Inl (OverflowError ''cannot fit int into an index-sized integer'')"
  by (simp add: sha256_of_file_def open_rb_def lookup_def normpath_def hash_chunks.simps
      file_read_def PY_SSIZE_T_MAX_def sha256_whole_def hashlib_sha256_def calm_env_def)

text \<open>
  C1, as the code has it. When the ProtonVPN package is downloaded and its SHA-256 is not
  the expected one, both \<^verbatim>\<open>install_protonvpn\<close> raise a \<^verbatim>\<open>RuntimeError\<close>; the trace of the
  call then holds requests and sleeps only, so no \<^verbatim>\<open>dpkg\<close>, no \<^verbatim>\<open>apt\<close> and no launch, and
  the request that brought the wrong bytes is the last one: the download is not made
  again. In startup.py that request is the only one. In startup2.py the download goes
  through \<^verbatim>\<open>download_with_retries\<close> with three attempts: the \<open>N < 3\<close> requests that
  failed in transport before the answered one were made and slept after, so the call
  makes \<open>N + 1\<close> requests.
\<close>

theorem checksum_mismatch_aborts:
  assumes mismatch: "sha256 ev (body r) \<noteq> PROTONVPN_SHA256"
  shows "(http ev (net_attempts w) PROTONVPN_DEB_URL = Inr r \<and>
          write_file (join downloads_dir (basename PROTONVPN_DEB_URL)) (body r) (fs w) = Inr t \<longrightarrow>
            fst (startup_install_protonvpn ev downloads_dir w) =
              Inl (RuntimeError ''ProtonVPN .deb checksum does not match expected value'') \<and>
            trace (snd (startup_install_protonvpn ev downloads_dir w)) =
              trace w @ [Http ''GET'' PROTONVPN_DEB_URL]) \<and>
         (N < 3 \<and> (\<forall>k < N. http ev (net_attempts w + k) PROTONVPN_DEB_URL = Inl (e k)) \<and>
          http ev (net_attempts w + N) PROTONVPN_DEB_URL = Inr r \<and>
          save_body (join downloads_dir (basename PROTONVPN_DEB_URL)) (body r) (fs w) = Inr t \<longrightarrow>
            fst (startup2_install_protonvpn ev downloads_dir w) =
              Inl (RuntimeError ''ProtonVPN checksum mismatch'') \<and>
            trace (snd (startup2_install_protonvpn ev downloads_dir w)) =
              trace w @ concat (map (\<lambda>k. [Http ''GET'' PROTONVPN_DEB_URL, Sleep (int k + 2)]) [0..<N])
                @ [Http ''GET'' PROTONVPN_DEB_URL])"
proof (intro conjI impI)
  assume a: "http ev (net_attempts w) PROTONVPN_DEB_URL = Inr r \<and>
             write_file (join downloads_dir (basename PROTONVPN_DEB_URL)) (body r) (fs w) = Inr t"
  then have res: "startup_install_protonvpn ev downloads_dir w =
      (Inl (RuntimeError ''ProtonVPN .deb checksum does not match expected value''),
       logger ERROR ''ProtonVPN .deb SHA256 mismatch. Aborting.''
         ((emit (Http ''GET'' PROTONVPN_DEB_URL)
            (logger INFO ''Installing ProtonVPN repository package (downloading .deb)'' w))\<lparr>fs := t\<rparr>))"
    using startup_protonvpn_mismatch[OF mismatch] by simp
  show "fst (startup_install_protonvpn ev downloads_dir w) =
          Inl (RuntimeError ''ProtonVPN .deb checksum does not match expected value'')"
    by (simp add: res)
  show "trace (snd (startup_install_protonvpn ev downloads_dir w)) =
          trace w @ [Http ''GET'' PROTONVPN_DEB_URL]"
    by (simp add: res emit_def logger_def)
next
  assume a: "N < 3 \<and> (\<forall>k < N. http ev (net_attempts w + k) PROTONVPN_DEB_URL = Inl (e k)) \<and>
          http ev (net_attempts w + N) PROTONVPN_DEB_URL = Inr r \<and>
          save_body (join downloads_dir (basename PROTONVPN_DEB_URL)) (body r) (fs w) = Inr t"
  then have res: "startup2_install_protonvpn ev downloads_dir w =
      (Inl (RuntimeError ''ProtonVPN checksum mismatch''),
       logger ERROR ''ProtonVPN .deb SHA256 mismatch. Aborting.''
         ((emit (Http ''GET'' PROTONVPN_DEB_URL)
            (failed_attempts PROTONVPN_DEB_URL (failures e N)
               (logger INFO ''Installing ProtonVPN (repo package + app)'' w)))\<lparr>fs := t\<rparr>))"
    using startup2_protonvpn_mismatch[OF mismatch, of N w e downloads_dir t] by simp
  show "fst (startup2_install_protonvpn ev downloads_dir w) =
          Inl (RuntimeError ''ProtonVPN checksum mismatch'')"
    by (simp add: res)
  show "trace (snd (startup2_install_protonvpn ev downloads_dir w)) =
          trace w @ concat (map (\<lambda>k. [Http ''GET'' PROTONVPN_DEB_URL, Sleep (int k + 2)]) [0..<N])
            @ [Http ''GET'' PROTONVPN_DEB_URL]"
    by (simp add: res failures_trace)
qed

theorem checksum_mismatch_aborts_witness:
  "fst (startup_install_protonvpn calm_env ''/srv/downloads'' start_world) =
     Inl (RuntimeError ''ProtonVPN .deb checksum does not match expected value'') \<and>
   trace (snd (startup_install_protonvpn calm_env ''/srv/downloads'' start_world)) =
     [Http ''GET'' PROTONVPN_DEB_URL] \<and>
   fst (startup2_install_protonvpn (flaky_env 1) ''/srv/downloads'' start_world) =
     Inl (RuntimeError ''ProtonVPN checksum mismatch'') \<and>
   trace (snd (startup2_install_protonvpn (flaky_env 1) ''/srv/downloads'' start_world)) =
     [Http ''GET'' PROTONVPN_DEB_URL, Sleep 2, Http ''GET'' PROTONVPN_DEB_URL]"
proof -
  let ?t = "(''/srv/downloads/protonvpn-stable-release_1.0.8_all.deb'', File [1, 2, 3])
              # fs start_world"
  note n = start_world_fresh
  have m1: "sha256 calm_env (body ok_response) \<noteq> PROTONVPN_SHA256" by (rule digest_differs)
  have m2: "sha256 (flaky_env 1) (body ok_response) \<noteq> PROTONVPN_SHA256"
    using digest_differs by (simp add: flaky_env_def)
  have a: "http calm_env (net_attempts start_world) PROTONVPN_DEB_URL = Inr ok_response \<and>
           write_file (join ''/srv/downloads'' (basename PROTONVPN_DEB_URL)) (body ok_response)
             (fs start_world) = Inr ?t"
    using write_start by (simp add: protonvpn_target calm_env_def ok_response_def)
  have b: "(1::nat) < 3 \<and>
           (\<forall>k < 1. http (flaky_env 1) (net_attempts start_world + k) PROTONVPN_DEB_URL =
                     Inl (URLError ''timed out'')) \<and>
           http (flaky_env 1) (net_attempts start_world + 1) PROTONVPN_DEB_URL = Inr ok_response \<and>
           save_body (join ''/srv/downloads'' (basename PROTONVPN_DEB_URL)) (body ok_response)
             (fs start_world) = Inr ?t"
    using save_start by (simp add: protonvpn_target flaky_env_def n ok_response_def)
  have u: "[0..<1] = [0]" by simp
  show ?thesis
    using checksum_mismatch_aborts[OF m1, of start_world "''/srv/downloads''" ?t 0
            "\<lambda>k. URLError ''timed out''"]
      checksum_mismatch_aborts[OF m2, of start_world "''/srv/downloads''" ?t 1
            "\<lambda>k. URLError ''timed out''"]
      a b n
    by (simp add: u)
qed

text \<open>
  C1 as the claim states it fails in startup2.py when the first request times out and the
  second brings bytes whose digest is not the expected one: the integrity error is raised
  after two network attempts, not one.
\<close>

theorem checksum_single_attempt_counterexample:
  "http (flaky_env 1) 0 PROTONVPN_DEB_URL = Inl (URLError ''timed out'') \<and>
   http (flaky_env 1) 1 PROTONVPN_DEB_URL = Inr ok_response \<and>
   sha256 (flaky_env 1) (body ok_response) \<noteq> PROTONVPN_SHA256 \<and>
   fst (startup2_install_protonvpn (flaky_env 1) ''/srv/downloads'' start_world) =
     Inl (RuntimeError ''ProtonVPN checksum mismatch'') \<and>
   net_attempts (snd (startup2_install_protonvpn (flaky_env 1) ''/srv/downloads'' start_world)) = 2"
proof -
  let ?t = "(''/srv/downloads/protonvpn-stable-release_1.0.8_all.deb'', File [1, 2, 3])
              # fs start_world"
  note n = start_world_fresh
  have m: "sha256 (flaky_env 1) (body ok_response) \<noteq> PROTONVPN_SHA256"
    using digest_differs by (simp add: flaky_env_def)
  have f: "\<forall>k < 1. http (flaky_env 1) (net_attempts start_world + k) PROTONVPN_DEB_URL =
                     Inl (URLError ''timed out'')"
    by (simp add: flaky_env_def n)
  have a: "http (flaky_env 1) (net_attempts start_world + 1) PROTONVPN_DEB_URL = Inr ok_response"
    by (simp add: flaky_env_def n)
  have s: "save_body (join ''/srv/downloads'' (basename PROTONVPN_DEB_URL)) (body ok_response)
             (fs start_world) = Inr ?t"
    using save_start by (simp add: protonvpn_target ok_response_def)
  have one: "(1::nat) < 3" by simp
  have h0: "http (flaky_env 1) 0 PROTONVPN_DEB_URL = Inl (URLError ''timed out'')"
    and h1: "http (flaky_env 1) 1 PROTONVPN_DEB_URL = Inr ok_response"
    by (simp_all add: flaky_env_def)
  have "fst (startup2_install_protonvpn (flaky_env 1) ''/srv/downloads'' start_world) =
          Inl (RuntimeError ''ProtonVPN checksum mismatch'') \<and>
        net_attempts (snd (startup2_install_protonvpn (flaky_env 1) ''/srv/downloads'' start_world)) = 2"
    unfolding startup2_protonvpn_mismatch[OF m one f a s] by (simp add: n failures_def)
  with h0 h1 m show ?thesis by simp
qed

text \<open>
  C2, as the code has it. In startup.py and startup2.py the backups of
  \<^verbatim>\<open>backup_and_copy_grub\<close> and \<^verbatim>\<open>backup_and_copy_wallpapers\<close> are
  \<^verbatim>\<open>dest = make_unique_path(base); shutil.move(target, dest)\<close>. The path
  \<^verbatim>\<open>make_unique_path\<close> returns extends the base and is not in the file system when it is
  returned (the loop over the counters always ends). After the move of a GRUB backup the
  path is in the file system, and every \<^verbatim>\<open>make_unique_path\<close> call made in the state the
  backup leaves returns another path. The calls of one run are made with the bases of
  \<open>backup_bases\<close>, one call for each: the first statement of each part of
  \<^verbatim>\<open>backup_and_copy_grub\<close> and every iteration of the first loop of
  \<^verbatim>\<open>backup_and_copy_wallpapers\<close> use their own entry; and two different entries never give
  the same path, whatever the file system and the clock are at either call.
\<close>

theorem backup_path_is_fresh_and_distinct:
  "prefix path_base (fst (make_unique_path ev path_base w)) \<and>
   \<not> path_exists (fs w) (fst (make_unique_path ev path_base w)) \<and>
   (backup_to ev target path_base w = (Inr u, w1) \<longrightarrow>
      path_exists (fs w1) (fst (make_unique_path ev path_base w)) \<and>
      fst (make_unique_path ev2 base2 w1) \<noteq> fst (make_unique_path ev path_base w)) \<and>
   (i < length backup_bases \<and> j < length backup_bases \<and> i \<noteq> j \<longrightarrow>
      fst (make_unique_path ev (backup_bases ! i) wa) \<noteq>
      fst (make_unique_path ev2 (backup_bases ! j) wb)) \<and>
   grub_cfg_steps ev repo_path ! 0 =
     when_fs (\<lambda>t. path_exists t ''/boot/grub/grub.cfg'')
       (backup_to ev ''/boot/grub/grub.cfg'' (backup_bases ! 0)) \<and>
   boot_theme_steps ev repo_path ! 0 =
     when_fs (\<lambda>t. isdir t ''/boot/grub/themes/kali'')
       (backup_to ev ''/boot/grub/themes/kali'' (backup_bases ! 1)) \<and>
   usr_theme_steps ev ! 0 =
     when_fs (\<lambda>t. isdir t ''/usr/share/grub/themes/kali'')
       (backup_to ev ''/usr/share/grub/themes/kali'' (backup_bases ! 2)) \<and>
   (k < length WALLPAPER_FILES_TO_BACKUP \<longrightarrow>
      backup_wallpaper ev ''/usr/share/backgrounds/kali''
          (join ''/usr/share/backgrounds/kali'' ''backup'') (WALLPAPER_FILES_TO_BACKUP ! k) =
        when_fs (\<lambda>t. path_exists t (join ''/usr/share/backgrounds/kali'' (WALLPAPER_FILES_TO_BACKUP ! k)))
          (bind (total (make_unique_path ev (backup_bases ! (3 + k))))
             (\<lambda>dest. steps [safe_makedirs (dirname dest),
                             fs_op (shutil_move (join ''/usr/share/backgrounds/kali''
                                      (WALLPAPER_FILES_TO_BACKUP ! k)) dest)]))) \<and>
   length backup_bases = 3 + length WALLPAPER_FILES_TO_BACKUP"
proof (intro conjI impI)
  show "prefix path_base (fst (make_unique_path ev path_base w))"
    by (rule make_unique_path_prefix)
  show "\<not> path_exists (fs w) (fst (make_unique_path ev path_base w))"
    by (rule make_unique_path_free)
next
  assume backed: "backup_to ev target path_base w = (Inr u, w1)"
  show there: "path_exists (fs w1) (fst (make_unique_path ev path_base w))"
    by (rule backup_to_creates[OF backed])
  show "fst (make_unique_path ev2 base2 w1) \<noteq> fst (make_unique_path ev path_base w)"
  proof
    assume "fst (make_unique_path ev2 base2 w1) = fst (make_unique_path ev path_base w)"
    with there have "path_exists (fs w1) (fst (make_unique_path ev2 base2 w1))" by simp
    with make_unique_path_free[of w1 ev2 base2] show False by simp
  qed
next
  assume "i < length backup_bases \<and> j < length backup_bases \<and> i \<noteq> j"
  then show "fst (make_unique_path ev (backup_bases ! i) wa) \<noteq>
             fst (make_unique_path ev2 (backup_bases ! j) wb)"
    by (simp add: backup_bases_give_distinct_paths)
next
  show "grub_cfg_steps ev repo_path ! 0 =
     when_fs (\<lambda>t. path_exists t ''/boot/grub/grub.cfg'')
       (backup_to ev ''/boot/grub/grub.cfg'' (backup_bases ! 0))"
    by (rule backup_steps_bases)
  show "boot_theme_steps ev repo_path ! 0 =
     when_fs (\<lambda>t. isdir t ''/boot/grub/themes/kali'')
       (backup_to ev ''/boot/grub/themes/kali'' (backup_bases ! 1))"
    by (rule backup_steps_bases)
  show "usr_theme_steps ev ! 0 =
     when_fs (\<lambda>t. isdir t ''/usr/share/grub/themes/kali'')
       (backup_to ev ''/usr/share/grub/themes/kali'' (backup_bases ! 2))"
    by (rule backup_steps_bases)
  show "length backup_bases = 3 + length WALLPAPER_FILES_TO_BACKUP"
    by (simp add: backup_bases_def)
next
  assume "k < length WALLPAPER_FILES_TO_BACKUP"
  then show "backup_wallpaper ev ''/usr/share/backgrounds/kali''
          (join ''/usr/share/backgrounds/kali'' ''backup'') (WALLPAPER_FILES_TO_BACKUP ! k) =
        when_fs (\<lambda>t. path_exists t (join ''/usr/share/backgrounds/kali'' (WALLPAPER_FILES_TO_BACKUP ! k)))
          (bind (total (make_unique_path ev (backup_bases ! (3 + k))))
             (\<lambda>dest. steps [safe_makedirs (dirname dest),
                             fs_op (shutil_move (join ''/usr/share/backgrounds/kali''
                                      (WALLPAPER_FILES_TO_BACKUP ! k)) dest)]))"
    by (rule backup_wallpaper_base)
qed

theorem backup_path_is_fresh_and_distinct_witness:
  "fst (make_unique_path calm_env ''/boot/grub/grub.cfg.b'' grub_world) =
     ''/boot/grub/grub.cfg.b.1700000000.1'' \<and>
   \<not> path_exists (fs grub_world) ''/boot/grub/grub.cfg.b.1700000000.1'' \<and>
   path_exists (fs (snd (backup_to calm_env ''/boot/grub/grub.cfg'' ''/boot/grub/grub.cfg.b'' grub_world)))
     ''/boot/grub/grub.cfg.b.1700000000.1'' \<and>
   fst (make_unique_path calm_env ''/boot/grub/grub.cfg.b''
          (snd (backup_to calm_env ''/boot/grub/grub.cfg'' ''/boot/grub/grub.cfg.b'' grub_world)))
     \<noteq> ''/boot/grub/grub.cfg.b.1700000000.1'' \<and>
   fst (make_unique_path calm_env ''/boot/grub/themes/backup/kali.b'' grub_world)
     \<noteq> ''/boot/grub/grub.cfg.b.1700000000.1''"
proof -
  let ?w1 = "snd (backup_to calm_env ''/boot/grub/grub.cfg'' ''/boot/grub/grub.cfg.b'' grub_world)"
  have b: "backup_to calm_env ''/boot/grub/grub.cfg'' ''/boot/grub/grub.cfg.b'' grub_world =
             (Inr (), ?w1)"
    using grub_backup by (simp add: prod_eq_iff)
  have n: "(1::nat) < length backup_bases \<and> (0::nat) < length backup_bases \<and> (1::nat) \<noteq> 0"
    by (simp add: backup_bases_def)
  have e: "backup_bases ! 0 = ''/boot/grub/grub.cfg.b''"
    "backup_bases ! 1 = ''/boot/grub/themes/backup/kali.b''"
    by (simp_all add: backup_bases_def)
  note claim = backup_path_is_fresh_and_distinct[where ev = calm_env
        and target = "''/boot/grub/grub.cfg''"
        and path_base = "''/boot/grub/grub.cfg.b''" and w = grub_world and u = "()" and ?w1.0 = ?w1
        and ?ev2.0 = calm_env and ?base2.0 = "''/boot/grub/grub.cfg.b''"
        and i = 1 and j = 0 and wa = grub_world and wb = grub_world
        and repo_path = "''/root/startup''" and k = 0]
  from claim have fresh: "\<not> path_exists (fs grub_world)
      (fst (make_unique_path calm_env ''/boot/grub/grub.cfg.b'' grub_world))"
    by (rule conjunct1[OF conjunct2])
  from claim have after: "backup_to calm_env ''/boot/grub/grub.cfg'' ''/boot/grub/grub.cfg.b'' grub_world
        = (Inr (), ?w1) \<longrightarrow>
      path_exists (fs ?w1) (fst (make_unique_path calm_env ''/boot/grub/grub.cfg.b'' grub_world)) \<and>
      fst (make_unique_path calm_env ''/boot/grub/grub.cfg.b'' ?w1) \<noteq>
        fst (make_unique_path calm_env ''/boot/grub/grub.cfg.b'' grub_world)"
    by (rule conjunct1[OF conjunct2[OF conjunct2]])
  from claim have apart: "(1::nat) < length backup_bases \<and> (0::nat) < length backup_bases \<and> (1::nat) \<noteq> 0 \<longrightarrow>
      fst (make_unique_path calm_env (backup_bases ! 1) grub_world) \<noteq>
      fst (make_unique_path calm_env (backup_bases ! 0) grub_world)"
    by (rule conjunct1[OF conjunct2[OF conjunct2[OF conjunct2]]])
  from apart n have d: "fst (make_unique_path calm_env (backup_bases ! 1) grub_world) \<noteq>
      fst (make_unique_path calm_env (backup_bases ! 0) grub_world)"
    by (rule mp)
  from after b have a: "path_exists (fs ?w1) (fst (make_unique_path calm_env ''/boot/grub/grub.cfg.b'' grub_world)) \<and>
      fst (make_unique_path calm_env ''/boot/grub/grub.cfg.b'' ?w1) \<noteq>
        fst (make_unique_path calm_env ''/boot/grub/grub.cfg.b'' grub_world)"
    by (rule mp)
  note d' = d[unfolded e]
  show ?thesis
    using fresh a d' by (simp add: grub_unique)
qed

text \<open>
  C2 as the claim states it fails in python.py, whose \<^verbatim>\<open>backup_file\<close> moves to a name its
  caller fixes: when grub.cfg.b is there from an earlier run, the backup path exists
  before the call, the call succeeds, and the earlier backup is replaced.
\<close>

theorem backup_file_overwrites_counterexample:
  "path_exists (fs grub_world) ''/boot/grub/grub.cfg'' \<and>
   lookup (fs grub_world) ''/boot/grub/grub.cfg.b'' = Some (File [8]) \<and>
   fst (backup_file ''/boot/grub/grub.cfg'' ''/boot/grub/grub.cfg.b'' grub_world) = Inr () \<and>
   lookup (fs (snd (backup_file ''/boot/grub/grub.cfg'' ''/boot/grub/grub.cfg.b'' grub_world)))
     ''/boot/grub/grub.cfg.b'' = Some (File [7])"
  by (simp add: backup_file_def when_fs_def fs_op_def shutil_move_def Let_def rename_tree_def
      under_def inside_def rebase_def
      normpath_def isdir_def lookup_def path_exists_def dirname_def grub_world_def)

text \<open>
  C3, as the code has it. \<^verbatim>\<open>main\<close> of startup.py and of startup2.py runs the five installers
  inside the one \<^verbatim>\<open>try\<close> block that holds every step. When the installers before the
  \<open>k\<close>-th return and the \<open>k\<close>-th raises (its install command ended with a non-zero status
  that the installer does not catch), the handler logs two error lines and the process
  ends with status 1: the world \<^verbatim>\<open>main\<close> leaves is the world the failing installer left,
  with these two lines added to the log, so no later package was attempted.
\<close>

theorem package_failure_aborts_session:
  assumes root: "euid ev = 0"
    and ready: "prerequisites S ev (logger INFO ''=== Installer started ==='' w) =
                  (Inr downloads_dir, w1)"
    and k: "k < 5"
    and before: "steps (take k (packages S ev downloads_dir)) w1 = (Inr u, w2)"
    and failed: "(packages S ev downloads_dir ! k) w2 = (Inl e, w3)"
  shows "fst (main S ev w) = 1 \<and>
         trace (snd (main S ev w)) = trace w3 \<and>
         fs (snd (main S ev w)) = fs w3 \<and>
         logs (snd (main S ev w)) =
           logs w3 @ [(ERROR, ''Fatal error during installation: {e}''),
                      (ERROR, ''Installation aborted due to errors. Check logs above.'')]"
  unfolding main_aborts_at[OF root ready k before failed]
  by (simp add: abort_log_def logger_def)

theorem package_failure_aborts_session_witness:
  "fst (main startup2_py (session_env 1) session_world) = 1 \<and>
   trace (snd (main startup2_py (session_env 1) session_world)) = trace rustscan_failed_world \<and>
   fs (snd (main startup2_py (session_env 1) session_world)) = fs rustscan_failed_world \<and>
   logs (snd (main startup2_py (session_env 1) session_world)) =
     logs rustscan_failed_world @
       [(ERROR, ''Fatal error during installation: {e}''),
        (ERROR, ''Installation aborted due to errors. Check logs above.'')]"
proof -
  have two: "(2::nat) < 5" by simp
  show ?thesis
    by (rule package_failure_aborts_session
          [OF session_root session_ready two stage_two stage_rustscan])
qed

text \<open>
  C3 as the claim states it fails in the session of startup2.py in which \<^verbatim>\<open>dpkg -i\<close> ends
  with status 1 on the RustScan package: the process ends with status 1 after that
  command, and VS Code and Brave, which come later and would install, are never
  attempted: nothing of them is logged and nothing of them is requested.
\<close>

theorem later_packages_skipped_counterexample:
  "fst (main startup2_py (session_env 1) session_world) = 1 \<and>
   last (trace (snd (main startup2_py (session_env 1) session_world))) =
     Run [''dpkg'', ''-i'', ''/root/startup/downloads/rustscan_2.2.3_amd64.deb''] \<and>
   (INFO, ''Installing VS Code (.deb)'')
     \<notin> set (logs (snd (main startup2_py (session_env 1) session_world))) \<and>
   (INFO, ''Installing Brave (nightly) via installer script'')
     \<notin> set (logs (snd (main startup2_py (session_env 1) session_world))) \<and>
   Http ''GET'' VSCODE_DEB_URL
     \<notin> set (trace (snd (main startup2_py (session_env 1) session_world))) \<and>
   Http ''GET'' BRAVE_INSTALLER_URL
     \<notin> set (trace (snd (main startup2_py (session_env 1) session_world))) \<and>
   fst (startup2_install_vscode (session_env 1) ''/root/startup/downloads''
          (snd (main startup2_py (session_env 1) session_world))) = Inr ()"
proof -
  have "fst (startup2_install_vscode (session_env 1) ''/root/startup/downloads''
          (abort_log rustscan_failed_world)) = Inr ()"
    by code_simp
  then show ?thesis
    unfolding session_outcome
    by (simp add: abort_log_def logger_def rustscan_failed_world_def two_packages_trace_def
        two_packages_logs_def tweak_trace_def dash_trace_def tweak_logs_def
        VSCODE_DEB_URL_def BRAVE_INSTALLER_URL_def PROTONVPN_DEB_URL_def RUSTSCAN_DEB_URL_def)
qed

text \<open>
  C7, as the code has it. \<^verbatim>\<open>cleanup_downloads\<close> is the statement after the five installers
  inside the \<^verbatim>\<open>try\<close> block, and nothing else calls it. When the five installers return,
  \<^verbatim>\<open>main\<close> goes on with the cleanup in the world they leave. When one of them raises, the
  process ends with status 1 in the world that installer left: the file system is the one
  it left, downloads included, and the cleanup was not executed.
\<close>

theorem cleanup_runs_only_after_all_packages:
  assumes root: "euid ev = 0"
    and ready: "prerequisites S ev (logger INFO ''=== Installer started ==='' w) =
                  (Inr downloads_dir, w1)"
  shows "(steps (packages S ev downloads_dir) w1 = (Inr u, w2) \<longrightarrow>
            main S ev w =
              except_exit (steps [cleanup_downloads downloads_dir, reboot_prompt ev,
                                  say INFO ''=== Installer finished successfully ===''] w2)) \<and>
         (k < 5 \<and> steps (take k (packages S ev downloads_dir)) w1 = (Inr u, w2) \<and>
          (packages S ev downloads_dir ! k) w2 = (Inl e, w3) \<longrightarrow>
            main S ev w = (1, abort_log w3) \<and> fs (snd (main S ev w)) = fs w3)"
proof (intro conjI impI)
  assume "steps (packages S ev downloads_dir) w1 = (Inr u, w2)"
  then show "main S ev w =
      except_exit (steps [cleanup_downloads downloads_dir, reboot_prompt ev,
                          say INFO ''=== Installer finished successfully ===''] w2)"
    by (rule main_all_installed[OF root ready])
next
  assume a: "k < 5 \<and> steps (take k (packages S ev downloads_dir)) w1 = (Inr u, w2) \<and>
          (packages S ev downloads_dir ! k) w2 = (Inl e, w3)"
  then have m: "main S ev w = (1, abort_log w3)"
    using main_aborts_at[OF root ready] by blast
  then show "main S ev w = (1, abort_log w3)" .
  from m show "fs (snd (main S ev w)) = fs w3"
    by (simp add: abort_log_def logger_def)
qed

theorem cleanup_runs_only_after_all_packages_witness:
  "main startup2_py (session_env 0) session_world =
     except_exit (steps [cleanup_downloads ''/root/startup/downloads'', reboot_prompt (session_env 0),
                         say INFO ''=== Installer finished successfully ===''] installed_world) \<and>
   fst (main startup2_py (session_env 0) session_world) = 0 \<and>
   listdir (fs (snd (main startup2_py (session_env 0) session_world)))
     ''/root/startup/downloads'' = [] \<and>
   main startup2_py (session_env 1) session_world = (1, abort_log rustscan_failed_world) \<and>
   fs (snd (main startup2_py (session_env 1) session_world)) = fs rustscan_failed_world"
proof -
  have two: "(2::nat) < 5 \<and>
      steps (take 2 (packages startup2_py (session_env 1) ''/root/startup/downloads'')) ready_world
        = (Inr (), two_packages_world) \<and>
      (packages startup2_py (session_env 1) ''/root/startup/downloads'' ! 2) two_packages_world
        = (Inl (CalledProcessError
                  [''dpkg'', ''-i'', ''/root/startup/downloads/rustscan_2.2.3_amd64.deb''] 1),
           rustscan_failed_world)"
    using stage_two stage_rustscan by simp
  have good: "main startup2_py (session_env 0) session_world =
     except_exit (steps [cleanup_downloads ''/root/startup/downloads'', reboot_prompt (session_env 0),
                         say INFO ''=== Installer finished successfully ===''] installed_world)"
    using cleanup_runs_only_after_all_packages[OF session_root session_ready,
        of 0 "()" installed_world] stage_all
    by blast
  have bad: "main startup2_py (session_env 1) session_world = (1, abort_log rustscan_failed_world) \<and>
     fs (snd (main startup2_py (session_env 1) session_world)) = fs rustscan_failed_world"
    using cleanup_runs_only_after_all_packages[OF session_root session_ready,
        of 1 "()" two_packages_world 2] two
    by blast
  show ?thesis using good bad clean_end(1,2) by (simp add: abort_log_fs)
qed

text \<open>
  C7 as the claim states it fails in the same session: the package phase is entered (the
  Telegram installer logs its first line), the RustScan installer raises, and the process
  ends with status 1 without the cleanup: its first log line is missing, and the three
  downloaded files are still in the downloads folder.
\<close>

theorem cleanup_skipped_counterexample:
  "fst (main startup2_py (session_env 1) session_world) = 1 \<and>
   (INFO, ''Installing Telegram Desktop (saved into downloads folder)'')
     \<in> set (logs (snd (main startup2_py (session_env 1) session_world))) \<and>
   (INFO, ''Cleaning up downloads folder'')
     \<notin> set (logs (snd (main startup2_py (session_env 1) session_world))) \<and>
   lookup (fs (snd (main startup2_py (session_env 1) session_world)))
     ''/root/startup/downloads/tsetup.6.1.3.tar.xz'' = Some (File [1, 2, 3]) \<and>
   lookup (fs (snd (main startup2_py (session_env 1) session_world)))
     ''/root/startup/downloads/protonvpn-stable-release_1.0.8_all.deb'' = Some (File [1, 2, 3]) \<and>
   lookup (fs (snd (main startup2_py (session_env 1) session_world)))
     ''/root/startup/downloads/rustscan_2.2.3_amd64.deb'' = Some (File [1, 2, 3])"
  unfolding session_outcome
  by (simp add: abort_log_def logger_def rustscan_failed_world_def two_packages_fs_def
      two_packages_logs_def tweak_logs_def lookup_def normpath_def)

text \<open>
  C8 fails in startup.py. Its \<^verbatim>\<open>install_telegram\<close> calls \<^verbatim>\<open>subprocess.Popen\<close> with no handler,
  and its \<^verbatim>\<open>install_vscode\<close> and \<^verbatim>\<open>install_protonvpn\<close> catch \<^verbatim>\<open>FileNotFoundError\<close> only. On a
  machine that cannot execute the binary, the archive is downloaded and unpacked, the
  binary is in place, the launch raises \<^verbatim>\<open>OSError\<close>, and the installer raises it on: the
  launch is the last event of the call and its error is the result. The installers of
  startup2.py, which catch every exception of the launch, return in the same world.
\<close>

theorem telegram_launch_failure_is_fatal:
  "fst (startup_install_telegram exec_format_env ''/root/startup/downloads'' ready_world) =
     Inl (OSError ''[Errno 8] Exec format error'') \<and>
   last (trace (snd (startup_install_telegram exec_format_env ''/root/startup/downloads''
                       ready_world))) =
     Spawn [''/opt/Telegram/Telegram''] \<and>
   Run [''tar'', ''-xf'', ''/root/startup/downloads/tsetup.6.1.3.tar.xz'', ''-C'', ''/opt/Telegram'',
        ''--strip-components=1'']
     \<in> set (trace (snd (startup_install_telegram exec_format_env ''/root/startup/downloads''
                           ready_world))) \<and>
   lookup (fs (snd (startup_install_telegram exec_format_env ''/root/startup/downloads''
                      ready_world)))
     ''/opt/Telegram/Telegram'' = Some (File [127, 69, 76, 70]) \<and>
   fst (startup2_install_telegram exec_format_env ''/root/startup/downloads'' ready_world) = Inr () \<and>
   fst (startup_install_vscode exec_format_env ''/root/startup/downloads'' ready_world) =
     Inl (OSError ''[Errno 8] Exec format error'') \<and>
   fst (startup2_install_vscode exec_format_env ''/root/startup/downloads'' ready_world) = Inr ()"
  by code_simp

end
